theory Spec2Isabelle
  imports Main "HOL-Library.Word"
begin

unbundle bit_operations_syntax

chapter \<open>The control layer of the emulator: \<^verbatim>\<open>src/ai_interface.c\<close>\<close>

text \<open>
  A shallow embedding of the socket server that lets a client drive the emulator frame
  by frame: the JSON field extractors, the envelope of requests and responses, the
  connection handling, the command dispatcher, the frame hook with its pause loop, the
  debug capture buffer and the input overrides. The module's global variables are the
  fields of one state record that every function takes and returns; the sockets are made
  explicit in the same record. Command-line parsing (\<^verbatim>\<open>AI_Initialise\<close>), socket set-up
  and tear-down (\<^verbatim>\<open>setup_server_socket\<close>, \<^verbatim>\<open>AI_Exit\<close>) and the screen and base64
  helpers are not part of the model.
\<close>

section \<open>C strings and number formatting\<close>

text \<open>
  The layer works on NUL-terminated \<^verbatim>\<open>char\<close> buffers. A C string is modelled by
  the list of its characters before the terminator; a raw buffer that may contain NUL
  bytes is cut with \<open>c_str\<close> before a string function sees it. \<^verbatim>\<open>UBYTE\<close> is an 8-bit
  word. A C \<^verbatim>\<open>int\<close> is an \<open>int\<close> that stays within the 32-bit range: every \<^verbatim>\<open>int\<close>
  of the layer is a constant, a default or a result of \<^verbatim>\<open>atoi\<close>, and the only
  arithmetic on them is the decrement of a positive frame counter and the shift of a
  stick value by 0 or 4 bits in \<^verbatim>\<open>AI_ApplyInput\<close>. The C standard leaves \<^verbatim>\<open>atoi\<close> undefined on a
  digit string beyond the range of \<^verbatim>\<open>int\<close>; the model follows the C libraries the
  emulator is built with, where \<^verbatim>\<open>atoi\<close> is \<^verbatim>\<open>strtol\<close> cut to 32 bits, so that
  \<^verbatim>\<open>4294967296\<close> reads as 0 and \<^verbatim>\<open>4294967310\<close> as 14.
\<close>

type_synonym u8 = "8 word"

definition c_str :: "string \<Rightarrow> string" where
  "c_str bs = takeWhile (\<lambda>c. c \<noteq> CHR 0x00) bs"

text \<open>\<^verbatim>\<open>strstr(hay, needle)\<close>: the suffix of \<open>hay\<close> at the first occurrence, or NULL.\<close>

fun strstr :: "string \<Rightarrow> string \<Rightarrow> string option" where
  "strstr [] needle = (if needle = [] then Some [] else None)"
| "strstr (c # cs) needle =
     (if take (length needle) (c # cs) = needle then Some (c # cs) else strstr cs needle)"

definition isspace :: "char \<Rightarrow> bool" where
  "isspace c \<longleftrightarrow> c \<in> set [CHR '' '', CHR 0x09, CHR 0x0A, CHR 0x0B, CHR 0x0C, CHR 0x0D]"

definition isdigit :: "char \<Rightarrow> bool" where
  "isdigit c \<longleftrightarrow> c \<in> set ''0123456789''"

fun digits_value :: "int \<Rightarrow> string \<Rightarrow> int" where
  "digits_value acc [] = acc"
| "digits_value acc (c # cs) =
     (if isdigit c then digits_value (acc * 10 + (of_char c - 48)) cs else acc)"

text \<open>
  \<^verbatim>\<open>strtol(str, NULL, 10)\<close>: leading white space, an optional sign, then the longest run
  of digits; a value beyond the range of the 64-bit \<^verbatim>\<open>long\<close> is replaced by the end of
  the range on its side.
\<close>

definition LONG_MAX :: int where
  "LONG_MAX = 9223372036854775807"

definition LONG_MIN :: int where
  "LONG_MIN = - 9223372036854775808"

definition to_long :: "int \<Rightarrow> int" where
  "to_long v = (if v > LONG_MAX then LONG_MAX else if v < LONG_MIN then LONG_MIN else v)"

definition strtol :: "string \<Rightarrow> int" where
  "strtol str =
     (case dropWhile isspace str of
        [] \<Rightarrow> 0
      | c # cs \<Rightarrow>
          if c = CHR ''-'' then to_long (- digits_value 0 cs)
          else if c = CHR ''+'' then to_long (digits_value 0 cs)
          else to_long (digits_value 0 (c # cs)))"

text \<open>The conversion of a \<^verbatim>\<open>long\<close> to the 32-bit \<^verbatim>\<open>int\<close>: the low 32 bits, signed.\<close>

definition to_int :: "int \<Rightarrow> int" where
  "to_int v = (v + 2147483648) mod 4294967296 - 2147483648"

text \<open>\<^verbatim>\<open>atoi(str)\<close> is \<^verbatim>\<open>(int) strtol(str, NULL, 10)\<close>.\<close>

definition atoi :: "string \<Rightarrow> int" where
  "atoi str = to_int (strtol str)"

fun dec_nat :: "nat \<Rightarrow> string" where
  "dec_nat n =
     (if n < 10 then [''0123456789'' ! n]
      else dec_nat (n div 10) @ [''0123456789'' ! (n mod 10)])"

declare dec_nat.simps [simp del]

text \<open>The \<^verbatim>\<open>%d\<close> conversion of \<^verbatim>\<open>snprintf\<close>.\<close>

definition fmt_d :: "int \<Rightarrow> string" where
  "fmt_d i = (if i < 0 then CHR ''-'' # dec_nat (nat (- i)) else dec_nat (nat i))"

section \<open>The JSON helpers\<close>

text \<open>
  \<^verbatim>\<open>snprintf(search, sizeof(search), "\"%s\":", key)\<close> with \<^verbatim>\<open>char search[64]\<close>: the key
  between double quotes followed by a colon, cut to 63 characters.
\<close>

definition search_key :: "string \<Rightarrow> string" where
  "search_key key = take 63 ([CHR 0x22] @ key @ [CHR 0x22, CHR '':''])"

definition skip_blanks :: "string \<Rightarrow> string" where
  "skip_blanks p = dropWhile (\<lambda>c. c = CHR '' '' \<or> c = CHR 0x09) p"

text \<open>
  The text that follows the first occurrence of \<^verbatim>\<open>"key":\<close> and the blanks after it;
  \<open>None\<close> when \<^verbatim>\<open>strstr\<close> returns NULL. The three extractors share these first lines.
\<close>

definition json_value_at :: "string \<Rightarrow> string \<Rightarrow> string option" where
  "json_value_at json key =
     (case strstr json (search_key key) of
        None \<Rightarrow> None
      | Some p \<Rightarrow> Some (skip_blanks (drop (length (search_key key)) p)))"

text \<open>
  The copy loop of \<^verbatim>\<open>json_get_string\<close>; the first argument is the room left in the
  caller's buffer, \<^verbatim>\<open>bufsize - 1 - i\<close>. A backslash that is followed by a character is
  dropped and that character is copied, whatever it is; a backslash at the very end
  of the text is copied itself.
\<close>

fun copy_string :: "nat \<Rightarrow> string \<Rightarrow> string" where
  "copy_string room [] = []"
| "copy_string room [c] = (if room = 0 \<or> c = CHR 0x22 then [] else [c])"
| "copy_string room (c # d # p) =
     (if room = 0 \<or> c = CHR 0x22 then []
      else if c = CHR 0x5C then d # copy_string (room - 1) p
      else c # copy_string (room - 1) (d # p))"

text \<open>\<open>None\<close> is the NULL return, which leaves the caller's buffer as it was.\<close>

definition json_get_string :: "string \<Rightarrow> string \<Rightarrow> nat \<Rightarrow> string option" where
  "json_get_string json key bufsize =
     (case json_value_at json key of
        None \<Rightarrow> None
      | Some p \<Rightarrow>
          (case p of
             [] \<Rightarrow> None
           | c # q \<Rightarrow> if c \<noteq> CHR 0x22 then None else Some (copy_string (bufsize - 1) q)))"

text \<open>Every caller passes a buffer initialised to the empty string and ignores the result.\<close>

definition string_field :: "string \<Rightarrow> string \<Rightarrow> nat \<Rightarrow> string" where
  "string_field json key bufsize =
     (case json_get_string json key bufsize of None \<Rightarrow> [] | Some v \<Rightarrow> v)"

definition json_get_int :: "string \<Rightarrow> string \<Rightarrow> int \<Rightarrow> int" where
  "json_get_int json key def =
     (case json_value_at json key of
        None \<Rightarrow> def
      | Some p \<Rightarrow> if take 1 p = [CHR 0x22] then def else atoi p)"

definition json_get_bool :: "string \<Rightarrow> string \<Rightarrow> int \<Rightarrow> int" where
  "json_get_bool json key def =
     (case json_value_at json key of
        None \<Rightarrow> def
      | Some p \<Rightarrow>
          if take 4 p = ''true'' then 1
          else if take 5 p = ''false'' then 0
          else def)"

section \<open>State\<close>

text \<open>
  The emulator is an external collaborator. Of its globals, the ones that
  \<^verbatim>\<open>ai_interface.c\<close> writes itself are fields of \<open>machine\<close>; everything else it owns
  (memory, CPU and chip registers, the screen, files) is the field \<open>other\<close>, of a type
  the layer never looks into. Arrays are functions from the index. The three arrays are
  declared in headers of the emulator that \<^verbatim>\<open>src/\<close> does not hold; their elements are
  \<^verbatim>\<open>UBYTE\<close> there, and the three key variables are \<^verbatim>\<open>int\<close>.
\<close>

record 'e machine =
  INPUT_key_code :: int
  INPUT_key_shift :: int
  INPUT_key_consol :: int
  POKEY_POT_input :: "nat \<Rightarrow> u8"
  PIA_PORT_input :: "nat \<Rightarrow> u8"
  GTIA_TRIG :: "nat \<Rightarrow> u8"
  other :: 'e

text \<open>
  The socket side. \<open>rx s fd\<close> are the bytes that have arrived on descriptor \<open>fd\<close> and
  are not read yet; \<open>rx_end s fd\<close> is what \<^verbatim>\<open>read\<close> reports once they are used up:
  \<^verbatim>\<open>-1\<close> with \<^verbatim>\<open>EAGAIN\<close>, \<^verbatim>\<open>0\<close> (the peer has closed), or \<^verbatim>\<open>-1\<close> with another
  \<^verbatim>\<open>errno\<close>. \<open>pending\<close> queues the incoming connections by the value \<^verbatim>\<open>accept\<close> will
  return for each (negative when that \<^verbatim>\<open>accept\<close> fails), \<open>open_fds\<close> are the client
  descriptors the process holds open, and \<open>sent\<close> logs every response written, with its
  descriptor, as the bytes on the wire. \<open>net_script\<close> is what the outside world will
  do during the coming idle waits, one event for each \<^verbatim>\<open>usleep\<close>.
\<close>

datatype rd_end = WouldBlock | Eof | Failed

datatype net_event = Connect int | Recv int string | Shut int rd_end

record 'e ai_state =
  AI_enabled :: int
  AI_debug_port :: int
  AI_joy_override :: "nat \<Rightarrow> int"
  AI_trig_override :: "nat \<Rightarrow> int"
  ai_server_fd :: int
  ai_client_fd :: int
  ai_paused :: int
  ai_frames_to_run :: int
  ai_steps_to_run :: int
  ai_debug_buffer :: "nat \<Rightarrow> u8"
  ai_debug_buffer_pos :: nat
  machine :: "'e machine"
  rx :: "int \<Rightarrow> string"
  rx_end :: "int \<Rightarrow> rd_end"
  pending :: "int list"
  open_fds :: "int set"
  sent :: "(int \<times> string) list"
  net_script :: "net_event list"

definition AI_BUFFER_SIZE :: int where
  "AI_BUFFER_SIZE = 65536"

definition AI_MAX_RESPONSE :: nat where
  "AI_MAX_RESPONSE = 1048576"

definition AI_DEBUG_BUFFER_SIZE :: nat where
  "AI_DEBUG_BUFFER_SIZE = 4096"

text \<open>
  The static initialisers: no override, no socket, no countdown, an empty debug
  buffer. \<^verbatim>\<open>AI_Initialise\<close> then sets \<open>AI_enabled\<close>, \<open>AI_debug_port\<close> and
  \<open>ai_server_fd\<close> from the command line and clears \<open>ai_paused\<close> for \<^verbatim>\<open>-ai-run\<close>.
\<close>

definition initial :: "'e ai_state \<Rightarrow> bool" where
  "initial s \<longleftrightarrow>
     AI_joy_override s = (\<lambda>i. - 1) \<and> AI_trig_override s = (\<lambda>i. - 1) \<and>
     ai_client_fd s = - 1 \<and> (ai_paused s = 1 \<or> ai_paused s = 0) \<and>
     ai_frames_to_run s = 0 \<and> ai_steps_to_run s = 0 \<and>
     ai_debug_buffer_pos s = 0 \<and> open_fds s = {} \<and> sent s = []"

section \<open>Sockets\<close>

text \<open>
  The length-prefixed envelope that \<^verbatim>\<open>AI_SendResponse\<close> writes: header, then body.
  Both calls of \<^verbatim>\<open>write\<close> are taken to write all they are given.
\<close>

definition envelope :: "string \<Rightarrow> string" where
  "envelope json = fmt_d (int (length json)) @ [CHR 0x0A] @ json"

definition AI_SendResponse :: "string \<Rightarrow> 'e ai_state \<Rightarrow> 'e ai_state" where
  "AI_SendResponse json s =
     (if ai_client_fd s < 0 then s
      else s\<lparr>sent := sent s @ [(ai_client_fd s, envelope json)]\<rparr>)"

text \<open>\<^verbatim>\<open>close(fd)\<close>: the descriptor is gone and what was unread on it is discarded.\<close>

definition close_fd :: "int \<Rightarrow> 'e ai_state \<Rightarrow> 'e ai_state" where
  "close_fd fd s =
     s\<lparr>open_fds := open_fds s - {fd}, rx := (rx s)(fd := []),
       rx_end := (rx_end s)(fd := WouldBlock)\<rparr>"

text \<open>
  The header loop of \<^verbatim>\<open>read_command\<close> (\<^verbatim>\<open>char header[32]\<close>, one byte for each
  \<^verbatim>\<open>read\<close>) from position \<open>hpos\<close> on. \<open>None\<close> is \<^verbatim>\<open>return 0\<close>; a read of 0 bytes or a
  failure other than \<^verbatim>\<open>EAGAIN\<close> closes the session first. After 31 bytes without a
  newline the loop ends; the source leaves the last byte of the array as it was, and the
  model takes the 31 bytes read to be the header.
\<close>

function read_header :: "nat \<Rightarrow> string \<Rightarrow> 'e ai_state \<Rightarrow> string option \<times> 'e ai_state" where
  "read_header hpos header s =
     (if hpos < 31 then
        (case rx s (ai_client_fd s) of
           [] \<Rightarrow>
             (None,
              if rx_end s (ai_client_fd s) = WouldBlock then s
              else (close_fd (ai_client_fd s) s)\<lparr>ai_client_fd := - 1\<rparr>)
         | c # cs \<Rightarrow>
             (if c = CHR 0x0A then (Some header, s\<lparr>rx := (rx s)(ai_client_fd s := cs)\<rparr>)
              else read_header (hpos + 1) (header @ [c])
                     (s\<lparr>rx := (rx s)(ai_client_fd s := cs)\<rparr>)))
      else (Some header, s))"
  by pat_completeness auto
termination
  by (relation "measure (\<lambda>(hpos, header, s). 31 - hpos)") auto

declare read_header.simps [simp del]

text \<open>
  The body loop: each \<^verbatim>\<open>read\<close> asks for what is still missing and gets what has
  arrived, at most that much; with nothing to get it returns a value that is not positive
  and \<^verbatim>\<open>read_command\<close> returns 0, without closing anything.
\<close>

function read_body :: "nat \<Rightarrow> string \<Rightarrow> 'e ai_state \<Rightarrow> string option \<times> 'e ai_state" where
  "read_body len buf s =
     (if length buf < len then
        (case rx s (ai_client_fd s) of
           [] \<Rightarrow> (None, s)
         | c # cs \<Rightarrow>
             read_body len (buf @ take (len - length buf) (c # cs))
               (s\<lparr>rx := (rx s)(ai_client_fd s := drop (len - length buf) (c # cs))\<rparr>))
      else (Some buf, s))"
  by pat_completeness auto
termination
  by (relation "measure (\<lambda>(len, buf, s). len - length buf)") auto

declare read_body.simps [simp del]

text \<open>
  \<^verbatim>\<open>read_command\<close>: \<open>Some buf\<close> stands for the return of the positive length with
  \<open>buf\<close> in the caller's buffer, \<open>None\<close> for the return of 0.
\<close>

definition read_command :: "int \<Rightarrow> 'e ai_state \<Rightarrow> string option \<times> 'e ai_state" where
  "read_command bufsize s =
     (if ai_client_fd s < 0 then (None, s)
      else
        (case read_header 0 [] s of
           (None, s1) \<Rightarrow> (None, s1)
         | (Some header, s1) \<Rightarrow>
             (if atoi header \<le> 0 \<or> atoi header \<ge> bufsize then (None, s1)
              else read_body (nat (atoi header)) [] s1)))"

text \<open>
  \<^verbatim>\<open>check_connections\<close>: when \<^verbatim>\<open>select\<close> reports a connection and \<^verbatim>\<open>accept\<close>
  succeeds, the present client is closed, the new descriptor takes its place and the
  scheduler is paused.
\<close>

definition check_connections :: "'e ai_state \<Rightarrow> 'e ai_state" where
  "check_connections s =
     (if ai_server_fd s < 0 then s
      else
        (case pending s of
           [] \<Rightarrow> s
         | client # rest \<Rightarrow>
             (if client \<ge> 0 then
                (let s1 = s\<lparr>pending := rest, open_fds := insert client (open_fds s)\<rparr>;
                     s2 = (if ai_client_fd s1 \<ge> 0 then close_fd (ai_client_fd s1) s1 else s1)
                 in s2\<lparr>ai_client_fd := client, ai_paused := 1\<rparr>)
              else s\<lparr>pending := rest\<rparr>)))"

text \<open>What the outside world does to the sockets.\<close>

fun deliver :: "net_event \<Rightarrow> 'e ai_state \<Rightarrow> 'e ai_state" where
  "deliver (Connect client) s = s\<lparr>pending := pending s @ [client]\<rparr>"
| "deliver (Recv fd bytes) s = s\<lparr>rx := (rx s)(fd := rx s fd @ bytes)\<rparr>"
| "deliver (Shut fd how) s = s\<lparr>rx_end := (rx_end s)(fd := how)\<rparr>"

text \<open>\<^verbatim>\<open>usleep(1000)\<close>: the next event of the script happens, if there is one.\<close>

definition usleep :: "'e ai_state \<Rightarrow> 'e ai_state" where
  "usleep s =
     (case net_script s of
        [] \<Rightarrow> s
      | e # es \<Rightarrow> deliver e (s\<lparr>net_script := es\<rparr>))"

section \<open>Debug capture and input overrides\<close>

definition AI_DebugWrite :: "u8 \<Rightarrow> 'e ai_state \<Rightarrow> 'e ai_state" where
  "AI_DebugWrite byte s =
     (if ai_debug_buffer_pos s < AI_DEBUG_BUFFER_SIZE then
        s\<lparr>ai_debug_buffer := (ai_debug_buffer s)(ai_debug_buffer_pos s := byte),
          ai_debug_buffer_pos := ai_debug_buffer_pos s + 1\<rparr>
      else s)"

text \<open>
  The two compound assignments of \<^verbatim>\<open>AI_ApplyInput\<close> on one byte of
  \<^verbatim>\<open>PIA_PORT_input\<close>: \<^verbatim>\<open>b &= ~(0x0F << shift); b |= (stick << shift)\<close>. Each is
  computed in \<^verbatim>\<open>int\<close> and stored back into the \<^verbatim>\<open>UBYTE\<close>, cut to 8 bits.
\<close>

definition override_lines :: "nat \<Rightarrow> int \<Rightarrow> u8 \<Rightarrow> u8" where
  "override_lines shift stick b =
     (let cleared = (word_of_int (uint b AND NOT (push_bit shift 0x0F)) :: u8)
      in word_of_int (uint cleared OR push_bit shift stick))"

text \<open>One round of the loop of \<^verbatim>\<open>AI_ApplyInput\<close>, for port \<open>i\<close>.\<close>

definition apply_port :: "nat \<Rightarrow> 'e ai_state \<Rightarrow> 'e ai_state" where
  "apply_port i s =
     (let s1 =
        (if AI_joy_override s i \<ge> 0 then
           (let pia_idx = (if i < 2 then 0 else 1 :: nat);
                shift = (i AND 1) * 4
            in s\<lparr>machine := (machine s)
                 \<lparr>PIA_PORT_input := (PIA_PORT_input (machine s))
                    (pia_idx := override_lines shift (AI_joy_override s i)
                                  (PIA_PORT_input (machine s) pia_idx))\<rparr>\<rparr>)
         else s)
      in
        (if AI_trig_override s1 i \<ge> 0 then
           s1\<lparr>machine := (machine s1)
                \<lparr>GTIA_TRIG := (GTIA_TRIG (machine s1))(i := word_of_int (AI_trig_override s1 i))\<rparr>\<rparr>
         else s1))"

definition AI_ApplyInput :: "'e ai_state \<Rightarrow> 'e ai_state" where
  "AI_ApplyInput s = (if AI_enabled s = 0 then s else fold apply_port [0, 1, 2, 3] s)"

definition AI_IsPaused :: "'e ai_state \<Rightarrow> bool" where
  "AI_IsPaused s \<longleftrightarrow> AI_enabled s \<noteq> 0 \<and> ai_paused s \<noteq> 0"

section \<open>The command dispatcher\<close>

text \<open>
  What \<^verbatim>\<open>process_command\<close> uses and \<^verbatim>\<open>src/\<close> does not hold is a parameter: the macros
  of \<^verbatim>\<open>input.h\<close> and \<^verbatim>\<open>akey.h\<close> that no file of the repository gives a value for, and
  the handlers that consist of calls into the emulator and of the printing of its
  registers and memory (\<^verbatim>\<open>load\<close>, \<^verbatim>\<open>reset\<close>, the screen, memory, CPU, chip and snapshot
  commands). Such a handler gets the command name, the request and the emulator, and
  gives the one response it sends, the bytes the emulator's memory-write hook passes to
  \<^verbatim>\<open>AI_DebugWrite\<close> meanwhile, and the emulator afterwards. It has no access to the
  \<^verbatim>\<open>static\<close> variables of the layer, and no file of the repository other than
  \<^verbatim>\<open>ai_interface.c\<close> writes the two override tables.
\<close>

record 'e collab =
  AKEY_NONE :: int
  INPUT_CONSOL_NONE :: int
  INPUT_CONSOL_START :: int
  INPUT_CONSOL_SELECT :: int
  INPUT_CONSOL_OPTION :: int
  INPUT_STICK_UL :: int
  INPUT_STICK_UR :: int
  INPUT_STICK_LL :: int
  INPUT_STICK_LR :: int
  emu_handler :: "string \<Rightarrow> string \<Rightarrow> 'e machine \<Rightarrow> string \<times> u8 list \<times> 'e machine"

text \<open>
  The five stick values that the repository documents (README, Joystick Direction
  Encoding): the four direction lines are active-low.
\<close>

definition INPUT_STICK_CENTRE :: int where "INPUT_STICK_CENTRE = 15"
definition INPUT_STICK_FORWARD :: int where "INPUT_STICK_FORWARD = 14"
definition INPUT_STICK_BACK :: int where "INPUT_STICK_BACK = 13"
definition INPUT_STICK_LEFT :: int where "INPUT_STICK_LEFT = 11"
definition INPUT_STICK_RIGHT :: int where "INPUT_STICK_RIGHT = 7"

definition stick_of :: "'e collab \<Rightarrow> string \<Rightarrow> int" where
  "stick_of X dir =
     (if dir = ''up'' then INPUT_STICK_FORWARD
      else if dir = ''down'' then INPUT_STICK_BACK
      else if dir = ''left'' then INPUT_STICK_LEFT
      else if dir = ''right'' then INPUT_STICK_RIGHT
      else if dir = ''ul'' then INPUT_STICK_UL X
      else if dir = ''ur'' then INPUT_STICK_UR X
      else if dir = ''ll'' then INPUT_STICK_LL X
      else if dir = ''lr'' then INPUT_STICK_LR X
      else INPUT_STICK_CENTRE)"

definition ok_response :: string where
  "ok_response = ''{\"status\":\"ok\"}''"

definition emulator_command :: "'e collab \<Rightarrow> string \<Rightarrow> string \<Rightarrow> 'e ai_state \<Rightarrow> 'e ai_state" where
  "emulator_command X name cmd s =
     (case emu_handler X name cmd (machine s) of
        (response, written, m) \<Rightarrow>
          AI_SendResponse response (fold AI_DebugWrite written (s\<lparr>machine := m\<rparr>)))"

definition cmd_key :: "'e collab \<Rightarrow> string \<Rightarrow> 'e ai_state \<Rightarrow> 'e ai_state" where
  "cmd_key X cmd s =
     AI_SendResponse ok_response
       (s\<lparr>machine := (machine s)
          \<lparr>INPUT_key_code := json_get_int cmd ''code'' (AKEY_NONE X),
           INPUT_key_shift := json_get_bool cmd ''shift'' 0\<rparr>\<rparr>)"

definition cmd_key_release :: "'e collab \<Rightarrow> 'e ai_state \<Rightarrow> 'e ai_state" where
  "cmd_key_release X s =
     AI_SendResponse ok_response
       (s\<lparr>machine := (machine s)\<lparr>INPUT_key_code := AKEY_NONE X, INPUT_key_shift := 0\<rparr>\<rparr>)"

definition cmd_joystick :: "'e collab \<Rightarrow> string \<Rightarrow> 'e ai_state \<Rightarrow> 'e ai_state" where
  "cmd_joystick X cmd s =
     (let port = json_get_int cmd ''port'' 0;
          dir = string_field cmd ''direction'' 16;
          fire = json_get_bool cmd ''fire'' 0;
          stick = stick_of X dir;
          s1 = (if port \<ge> 0 \<and> port < 4 then
                  s\<lparr>AI_joy_override := (AI_joy_override s)
                       (nat port := (if stick = INPUT_STICK_CENTRE then - 1 else stick)),
                    AI_trig_override := (AI_trig_override s)
                       (nat port := (if fire \<noteq> 0 then 0 else - 1))\<rparr>
                else s)
      in AI_SendResponse ok_response s1)"

definition cmd_paddle :: "string \<Rightarrow> 'e ai_state \<Rightarrow> 'e ai_state" where
  "cmd_paddle cmd s =
     (let port = json_get_int cmd ''port'' 0;
          val = json_get_int cmd ''value'' 128;
          s1 = (if port \<ge> 0 \<and> port < 8 then
                  s\<lparr>machine := (machine s)
                     \<lparr>POKEY_POT_input := (POKEY_POT_input (machine s))(nat port := word_of_int val)\<rparr>\<rparr>
                else s)
      in AI_SendResponse ok_response s1)"

definition cmd_consol :: "'e collab \<Rightarrow> string \<Rightarrow> 'e ai_state \<Rightarrow> 'e ai_state" where
  "cmd_consol X cmd s =
     (let c0 = INPUT_CONSOL_NONE X;
          c1 = (if json_get_bool cmd ''start'' 1 = 0 then c0 AND NOT (INPUT_CONSOL_START X) else c0);
          c2 = (if json_get_bool cmd ''select'' 1 = 0 then c1 AND NOT (INPUT_CONSOL_SELECT X) else c1);
          c3 = (if json_get_bool cmd ''option'' 1 = 0 then c2 AND NOT (INPUT_CONSOL_OPTION X) else c2)
      in AI_SendResponse ok_response (s\<lparr>machine := (machine s)\<lparr>INPUT_key_consol := c3\<rparr>\<rparr>))"

text \<open>
  The two loops of \<^verbatim>\<open>debug_read\<close> over the indices below \<open>ai_debug_buffer_pos\<close>, each
  with its guard on the room left in \<^verbatim>\<open>ai_response\<close>. The response under construction is
  the text written so far, and \<^verbatim>\<open>pos\<close> is its length.
\<close>

fun debug_data :: "(nat \<Rightarrow> u8) \<Rightarrow> nat list \<Rightarrow> string \<Rightarrow> string" where
  "debug_data buf [] response = response"
| "debug_data buf (i # idx) response =
     (if length response < AI_MAX_RESPONSE - 100 then
        debug_data buf idx
          (response @ (if i \<noteq> 0 then '','' else []) @ fmt_d (uint (buf i)))
      else response)"

definition printable :: "u8 \<Rightarrow> char" where
  "printable c =
     (if c \<ge> 32 \<and> c < 127 \<and> c \<noteq> 0x22 \<and> c \<noteq> 0x5C then char_of (unat c) else CHR ''.'')"

fun debug_ascii :: "(nat \<Rightarrow> u8) \<Rightarrow> nat list \<Rightarrow> string \<Rightarrow> string" where
  "debug_ascii buf [] response = response"
| "debug_ascii buf (i # idx) response =
     (if length response < AI_MAX_RESPONSE - 10 then
        debug_ascii buf idx (response @ [printable (buf i)])
      else response)"

definition debug_read_response :: "'e ai_state \<Rightarrow> string" where
  "debug_read_response s =
     (let idx = [0 ..< ai_debug_buffer_pos s];
          r1 = debug_data (ai_debug_buffer s) idx ''{\"status\":\"ok\",\"data\":['';
          r2 = r1 @ ''],\"ascii\":\"'';
          r3 = debug_ascii (ai_debug_buffer s) idx r2
      in r3 @ ''\"}'')"

definition cmd_debug_read :: "'e ai_state \<Rightarrow> 'e ai_state" where
  "cmd_debug_read s =
     AI_SendResponse (debug_read_response s) (s\<lparr>ai_debug_buffer_pos := 0\<rparr>)"

definition unknown_response :: "string \<Rightarrow> string" where
  "unknown_response cmd_type =
     ''{\"status\":\"error\",\"msg\":\"Unknown command: '' @ cmd_type @ ''\"}''"

text \<open>
  \<^verbatim>\<open>process_command\<close>, branch by branch in the order of the source. \<open>cmd\<close> is the
  request as a C string.
\<close>

definition process_command :: "'e collab \<Rightarrow> string \<Rightarrow> 'e ai_state \<Rightarrow> 'e ai_state" where
  "process_command X cmd s =
     (let cmd_type = string_field cmd ''cmd'' 32 in
      if cmd_type = ''ping'' then AI_SendResponse ''{\"status\":\"ok\",\"msg\":\"pong\"}'' s
      else if cmd_type = ''load'' then emulator_command X cmd_type cmd s
      else if cmd_type = ''run'' then
        s\<lparr>ai_frames_to_run := json_get_int cmd ''frames'' 1, ai_paused := 0\<rparr>
      else if cmd_type = ''step'' then
        s\<lparr>ai_steps_to_run := json_get_int cmd ''instructions'' 1, ai_paused := 0\<rparr>
      else if cmd_type = ''pause'' then AI_SendResponse ok_response (s\<lparr>ai_paused := 1\<rparr>)
      else if cmd_type = ''reset'' then emulator_command X cmd_type cmd s
      else if cmd_type = ''key'' then cmd_key X cmd s
      else if cmd_type = ''key_release'' then cmd_key_release X s
      else if cmd_type = ''joystick'' then cmd_joystick X cmd s
      else if cmd_type = ''paddle'' then cmd_paddle cmd s
      else if cmd_type = ''consol'' then cmd_consol X cmd s
      else if cmd_type = ''screenshot'' then emulator_command X cmd_type cmd s
      else if cmd_type = ''screen_ascii'' then emulator_command X cmd_type cmd s
      else if cmd_type = ''screen_raw'' then emulator_command X cmd_type cmd s
      else if cmd_type = ''peek'' then emulator_command X cmd_type cmd s
      else if cmd_type = ''poke'' then emulator_command X cmd_type cmd s
      else if cmd_type = ''dump'' then emulator_command X cmd_type cmd s
      else if cmd_type = ''cpu'' then emulator_command X cmd_type cmd s
      else if cmd_type = ''cpu_set'' then emulator_command X cmd_type cmd s
      else if cmd_type = ''antic'' then emulator_command X cmd_type cmd s
      else if cmd_type = ''gtia'' then emulator_command X cmd_type cmd s
      else if cmd_type = ''pokey'' then emulator_command X cmd_type cmd s
      else if cmd_type = ''pia'' then emulator_command X cmd_type cmd s
      else if cmd_type = ''debug_enable'' then
        AI_SendResponse ok_response (s\<lparr>AI_debug_port := json_get_int cmd ''addr'' 0xD7FF\<rparr>)
      else if cmd_type = ''debug_read'' then cmd_debug_read s
      else if cmd_type = ''save_state'' then emulator_command X cmd_type cmd s
      else if cmd_type = ''load_state'' then emulator_command X cmd_type cmd s
      else AI_SendResponse (unknown_response cmd_type) s)"

section \<open>The frame hook\<close>

text \<open>
  \<^verbatim>\<open>AI_Frame\<close> in three parts: what it does before its loop, one round of the loop,
  and the loop. The loop runs for as long as the scheduler is paused and a client is
  attached, which has no bound; \<open>AI_Frame_loop\<close> gives \<open>None\<close> when the given number of
  rounds does not bring it to its end.
\<close>

definition AI_Frame_begin :: "'e ai_state \<Rightarrow> 'e ai_state" where
  "AI_Frame_begin s =
     (let s1 = check_connections s in
      if ai_frames_to_run s1 > 0 then
        (let s2 = s1\<lparr>ai_frames_to_run := ai_frames_to_run s1 - 1\<rparr> in
         if ai_frames_to_run s2 = 0 then
           AI_SendResponse ''{\"status\":\"ok\",\"frames_run\":1}'' (s2\<lparr>ai_paused := 1\<rparr>)
         else s2)
      else s1)"

definition AI_Frame_round :: "'e collab \<Rightarrow> 'e ai_state \<Rightarrow> 'e ai_state" where
  "AI_Frame_round X s =
     (case read_command AI_BUFFER_SIZE s of
        (Some buf, s1) \<Rightarrow> check_connections (process_command X (c_str buf) s1)
      | (None, s1) \<Rightarrow> check_connections (usleep s1))"

fun AI_Frame_loop :: "'e collab \<Rightarrow> nat \<Rightarrow> 'e ai_state \<Rightarrow> 'e ai_state option" where
  "AI_Frame_loop X 0 s =
     (if ai_paused s \<noteq> 0 \<and> ai_client_fd s \<ge> 0 then None else Some s)"
| "AI_Frame_loop X (Suc fuel) s =
     (if ai_paused s \<noteq> 0 \<and> ai_client_fd s \<ge> 0 then AI_Frame_loop X fuel (AI_Frame_round X s)
      else Some s)"

definition AI_Frame :: "'e collab \<Rightarrow> nat \<Rightarrow> 'e ai_state \<Rightarrow> 'e ai_state option" where
  "AI_Frame X fuel s =
     (if AI_enabled s = 0 then Some s else AI_Frame_loop X fuel (AI_Frame_begin s))"

text \<open>
  The host calls the hook once for each emulated frame: \<open>k\<close> calls in a row. What the
  emulator does between two calls is left out here; it cannot reach the scheduler's
  variables, which are \<^verbatim>\<open>static\<close>.
\<close>

fun AI_Frames :: "'e collab \<Rightarrow> nat \<Rightarrow> nat \<Rightarrow> 'e ai_state \<Rightarrow> 'e ai_state option" where
  "AI_Frames X fuel 0 s = Some s"
| "AI_Frames X fuel (Suc k) s = Option.bind (AI_Frame X fuel s) (AI_Frames X fuel k)"

section \<open>Reachable states\<close>

text \<open>
  The states the layer can be in: from a start state, by the steps of the frame hook
  (its first part, and a round of its loop while the loop's guard holds), by the other
  two entry points, by the emulator changing its own state, and by the outside world
  acting on the sockets or changing its plans.
\<close>

inductive reachable :: "'e collab \<Rightarrow> 'e ai_state \<Rightarrow> bool" for X :: "'e collab" where
  start: "initial s \<Longrightarrow> reachable X s"
| frame_begin: "reachable X s \<Longrightarrow> AI_enabled s \<noteq> 0 \<Longrightarrow> reachable X (AI_Frame_begin s)"
| frame_round:
    "reachable X s \<Longrightarrow> AI_enabled s \<noteq> 0 \<Longrightarrow> ai_paused s \<noteq> 0 \<Longrightarrow> ai_client_fd s \<ge> 0 \<Longrightarrow>
     reachable X (AI_Frame_round X s)"
| apply_input: "reachable X s \<Longrightarrow> reachable X (AI_ApplyInput s)"
| debug_write: "reachable X s \<Longrightarrow> reachable X (AI_DebugWrite b s)"
| emulator: "reachable X s \<Longrightarrow> reachable X (s\<lparr>machine := m\<rparr>)"
| network: "reachable X s \<Longrightarrow> reachable X (deliver e s)"
| script: "reachable X s \<Longrightarrow> reachable X (s\<lparr>net_script := es\<rparr>)"



text \<open>
  A state with its socket side blanked out: two states that agree on it differ at most
  in the session descriptor and in what the sockets hold.
\<close>

definition beyond_sockets :: "'e ai_state \<Rightarrow> 'e ai_state" where
  "beyond_sockets s =
     s\<lparr>ai_client_fd := 0, rx := (\<lambda>fd. []), rx_end := (\<lambda>fd. WouldBlock), open_fds := {}\<rparr>"

text \<open>Three views of a state: the override tables, the scheduler, and the wiring.\<close>

definition overrides :: "'e ai_state \<Rightarrow> (nat \<Rightarrow> int) \<times> (nat \<Rightarrow> int)" where
  "overrides s = (AI_joy_override s, AI_trig_override s)"

definition scheduler :: "'e ai_state \<Rightarrow> int \<times> int \<times> int" where
  "scheduler s = (ai_paused s, ai_frames_to_run s, ai_steps_to_run s)"

definition wiring ::
  "'e ai_state \<Rightarrow>
   int \<times> int \<times> int \<times> (int \<Rightarrow> string) \<times> (int \<Rightarrow> rd_end) \<times> int list \<times> int set \<times> net_event list" where
  "wiring s =
     (AI_enabled s, ai_server_fd s, ai_client_fd s, rx s, rx_end s, pending s, open_fds s,
      net_script s)"


section \<open>Reference renderings and sample data\<close>

text \<open>
  What a \<^verbatim>\<open>debug_read\<close> response has to look like for a given sequence of captured
  bytes: the decimal values separated by commas, then the printable rendering.
\<close>

fun csv :: "string list \<Rightarrow> string" where
  "csv [] = []"
| "csv [x] = x"
| "csv (x # y # ys) = x @ '','' @ csv (y # ys)"

definition debug_read_text :: "u8 list \<Rightarrow> string" where
  "debug_read_text bs =
     ''{\"status\":\"ok\",\"data\":['' @ csv (map (\<lambda>b. fmt_d (uint b)) bs) @
     ''],\"ascii\":\"'' @ map printable bs @ ''\"}''"

text \<open>
  The four direction lines of a port within its byte of \<^verbatim>\<open>PIA_PORT_input\<close>: nibble 0
  is the low one (ports 0 and 2), nibble 1 the high one (ports 1 and 3).
\<close>

definition nibble :: "nat \<Rightarrow> u8 \<Rightarrow> u8" where
  "nibble k b = drop_bit (4 * k) b AND 0x0F"

text \<open>What the round of a port with override entry \<open>v\<close> does to its byte.\<close>

definition port_lines :: "int \<Rightarrow> nat \<Rightarrow> u8 \<Rightarrow> u8" where
  "port_lines v k b = (if v \<ge> 0 then override_lines (4 * k) v b else b)"

text \<open>One round of the first loop of \<^verbatim>\<open>debug_read\<close> appends this text for index \<open>i\<close>.\<close>

definition piece :: "(nat \<Rightarrow> u8) \<Rightarrow> nat \<Rightarrow> string" where
  "piece buf i = (if i \<noteq> 0 then '','' else []) @ fmt_d (uint (buf i))"





text \<open>
  A concrete emulator for the examples: the input lines as the hardware poll leaves them
  with nothing pressed (all direction lines high, triggers at 1), the remaining
  \<^verbatim>\<open>input.h\<close> and \<^verbatim>\<open>akey.h\<close> macros with the values of the emulator this repository is a
  fork of, and emulator-side handlers that answer \<^verbatim>\<open>ok\<close> and change nothing.
\<close>

definition sample_machine :: "unit machine" where
  "sample_machine =
     \<lparr>INPUT_key_code = - 1, INPUT_key_shift = 0, INPUT_key_consol = 7,
      POKEY_POT_input = (\<lambda>i. 228), PIA_PORT_input = (\<lambda>i. 0xFF), GTIA_TRIG = (\<lambda>i. 1),
      other = ()\<rparr>"

definition sample_collab :: "unit collab" where
  "sample_collab =
     \<lparr>AKEY_NONE = - 1, INPUT_CONSOL_NONE = 7, INPUT_CONSOL_START = 1,
      INPUT_CONSOL_SELECT = 2, INPUT_CONSOL_OPTION = 4,
      INPUT_STICK_UL = 10, INPUT_STICK_UR = 6, INPUT_STICK_LL = 9, INPUT_STICK_LR = 5,
      emu_handler = (\<lambda>name cmd m. (ok_response, [], m))\<rparr>"

text \<open>The layer right after \<^verbatim>\<open>AI_Initialise\<close> with \<^verbatim>\<open>-ai\<close>: listening on descriptor 3.\<close>

definition boot_state :: "unit ai_state" where
  "boot_state =
     \<lparr>AI_enabled = 1, AI_debug_port = 0,
      AI_joy_override = (\<lambda>i. - 1), AI_trig_override = (\<lambda>i. - 1),
      ai_server_fd = 3, ai_client_fd = - 1, ai_paused = 1,
      ai_frames_to_run = 0, ai_steps_to_run = 0,
      ai_debug_buffer = (\<lambda>i. 0), ai_debug_buffer_pos = 0,
      machine = sample_machine,
      rx = (\<lambda>fd. []), rx_end = (\<lambda>fd. WouldBlock), pending = [], open_fds = {},
      sent = [], net_script = []\<rparr>"

text \<open>A session attached on descriptor 4, paused, that has sent \<open>bytes\<close> so far.\<close>

definition session_state :: "string \<Rightarrow> unit ai_state" where
  "session_state bytes =
     boot_state\<lparr>ai_client_fd := 4, open_fds := {4}, rx := (\<lambda>fd. if fd = 4 then bytes else [])\<rparr>"

definition request :: "string \<Rightarrow> string" where
  "request json = envelope json"

text \<open>The session of one client that has sent a \<^verbatim>\<open>joystick\<close> command with \<^verbatim>\<open>fire\<close>.\<close>

definition fire_session :: "unit ai_state" where
  "fire_session =
     AI_Frame_round sample_collab
       (session_state
          (request ''{\"cmd\":\"joystick\",\"port\":1,\"direction\":\"left\",\"fire\":true}''))"



text \<open>The session of one client that has sent \<^verbatim>\<open>step\<close> for one instruction.\<close>

definition step_session :: "unit ai_state" where
  "step_session =
     AI_Frame_round sample_collab
       (session_state (request ''{\"cmd\":\"step\",\"instructions\":1}''))"

text \<open>
  A client connects, sends \<^verbatim>\<open>run\<close> for two frames, and closes the connection once it
  has sent the request.
\<close>

definition run_client :: "unit ai_state" where
  "run_client =
     deliver (Shut 4 Eof)
       (deliver (Recv 4 (request ''{\"cmd\":\"run\",\"frames\":2}''))
          (deliver (Connect 4) boot_state))"


section \<open>The range of \<^verbatim>\<open>atoi\<close>\<close>

lemmas atoi_eval = atoi_def strtol_def to_long_def to_int_def LONG_MAX_def LONG_MIN_def

text \<open>
  Every result of \<^verbatim>\<open>atoi\<close>, and so every integer field read from a request, is within
  the range of a 32-bit \<^verbatim>\<open>int\<close>.
\<close>

lemma atoi_range: "- 2147483648 \<le> atoi str \<and> atoi str < 2147483648"
  by (simp add: atoi_def to_int_def)

lemma json_get_int_range:
  "- 2147483648 \<le> d \<Longrightarrow> d < 2147483648 \<Longrightarrow>
   - 2147483648 \<le> json_get_int json key d \<and> json_get_int json key d < 2147483648"
  using atoi_range by (simp add: json_get_int_def split: option.splits)

text \<open>
  Digit strings beyond that range are cut to 32 bits, beyond the range of \<^verbatim>\<open>long\<close> they
  are first replaced by its largest or smallest value; text after the digits is ignored
  and text without digits reads as 0.
\<close>

lemma atoi_examples:
  "atoi ''14'' = 14 \<and> atoi ''  -5'' = - 5 \<and> atoi ''+7'' = 7 \<and>
   atoi ''14abc'' = 14 \<and> atoi ''abc'' = 0 \<and> atoi [] = 0 \<and>
   atoi ''2147483647'' = 2147483647 \<and> atoi ''2147483648'' = - 2147483648 \<and>
   atoi ''4294967296'' = 0 \<and> atoi ''4294967310'' = 14 \<and> atoi ''-4294967295'' = 1 \<and>
   atoi ''99999999999999999999'' = - 1 \<and> atoi ''-99999999999999999999'' = 0"
  by (simp add: atoi_eval isspace_def isdigit_def)

section \<open>What each operation leaves alone\<close>

lemma read_header_frame:
  "(case read_header hpos header s of
      (r, s') \<Rightarrow>
        beyond_sockets s' = beyond_sockets s \<and>
        (r \<noteq> None \<longrightarrow> ai_client_fd s' = ai_client_fd s \<and> open_fds s' = open_fds s))"
proof (induction hpos header s rule: read_header.induct)
  case (1 hpos header s)
  show ?case
  proof (cases "hpos < 31")
    case False
    then show ?thesis by (simp add: read_header.simps)
  next
    case True
    show ?thesis
    proof (cases "rx s (ai_client_fd s)")
      case Nil
      with True show ?thesis
        by (simp add: read_header.simps [of hpos header s] close_fd_def beyond_sockets_def)
    next
      case (Cons c cs)
      show ?thesis
      proof (cases "c = CHR 0x0A")
        case True
        with \<open>hpos < 31\<close> Cons show ?thesis
          by (simp add: read_header.simps [of hpos header s] beyond_sockets_def)
      next
        case False
        from "1.IH" [OF \<open>hpos < 31\<close> Cons False] \<open>hpos < 31\<close> Cons False show ?thesis
          by (simp add: read_header.simps [of hpos header s] beyond_sockets_def
              split: prod.splits)
      qed
    qed
  qed
qed

lemma read_body_frame:
  "(case read_body len buf s of
      (r, s') \<Rightarrow>
        beyond_sockets s' = beyond_sockets s \<and> ai_client_fd s' = ai_client_fd s \<and>
        open_fds s' = open_fds s)"
proof (induction len buf s rule: read_body.induct)
  case (1 len buf s)
  show ?case
  proof (cases "length buf < len")
    case False
    then show ?thesis by (simp add: read_body.simps)
  next
    case True
    show ?thesis
    proof (cases "rx s (ai_client_fd s)")
      case Nil
      with True show ?thesis by (simp add: read_body.simps [of len buf s])
    next
      case (Cons c cs)
      from "1.IH" [OF True Cons] True Cons show ?thesis
        by (simp add: read_body.simps [of len buf s] beyond_sockets_def split: prod.splits)
    qed
  qed
qed

lemma read_command_frame:
  assumes "read_command n s = (r, s')"
  shows "beyond_sockets s' = beyond_sockets s \<and>
         (r \<noteq> None \<longrightarrow> ai_client_fd s' = ai_client_fd s \<and> open_fds s' = open_fds s)"
proof (cases "ai_client_fd s < 0")
  case True
  with assms show ?thesis by (simp add: read_command_def)
next
  case False
  obtain h s1 where h: "read_header 0 [] s = (h, s1)" by (cases "read_header 0 [] s")
  from read_header_frame [where hpos = 0 and header = "[]" and s = s] h
  have s1: "beyond_sockets s1 = beyond_sockets s"
    and fd1: "h \<noteq> None \<longrightarrow> ai_client_fd s1 = ai_client_fd s \<and> open_fds s1 = open_fds s"
    by simp_all
  show ?thesis
  proof (cases h)
    case None
    with assms False h s1 show ?thesis by (simp add: read_command_def)
  next
    case (Some header)
    show ?thesis
    proof (cases "atoi header \<le> 0 \<or> atoi header \<ge> n")
      case True
      with assms False h Some s1 fd1 show ?thesis by (auto simp: read_command_def)
    next
      case False
      with assms \<open>\<not> ai_client_fd s < 0\<close> h Some
      have body: "read_body (nat (atoi header)) [] s1 = (r, s')"
        by (simp add: read_command_def)
      from read_body_frame [where len = "nat (atoi header)" and buf = "[]" and s = s1] body
      have "beyond_sockets s' = beyond_sockets s1" "ai_client_fd s' = ai_client_fd s1"
        "open_fds s' = open_fds s1"
        by simp_all
      with s1 fd1 Some show ?thesis by simp
    qed
  qed
qed

text \<open>The fields that reading a command cannot change, one by one.\<close>

lemma beyond_sockets_fields:
  assumes "beyond_sockets t = beyond_sockets s"
  shows "AI_enabled t = AI_enabled s" and "AI_debug_port t = AI_debug_port s"
    and "AI_joy_override t = AI_joy_override s" and "AI_trig_override t = AI_trig_override s"
    and "ai_server_fd t = ai_server_fd s" and "ai_paused t = ai_paused s"
    and "ai_frames_to_run t = ai_frames_to_run s" and "ai_steps_to_run t = ai_steps_to_run s"
    and "ai_debug_buffer t = ai_debug_buffer s"
    and "ai_debug_buffer_pos t = ai_debug_buffer_pos s"
    and "machine t = machine s" and "pending t = pending s" and "sent t = sent s"
    and "net_script t = net_script s"
proof -
  have "AI_enabled (beyond_sockets t) = AI_enabled (beyond_sockets s)"
    "AI_debug_port (beyond_sockets t) = AI_debug_port (beyond_sockets s)"
    "AI_joy_override (beyond_sockets t) = AI_joy_override (beyond_sockets s)"
    "AI_trig_override (beyond_sockets t) = AI_trig_override (beyond_sockets s)"
    "ai_server_fd (beyond_sockets t) = ai_server_fd (beyond_sockets s)"
    "ai_paused (beyond_sockets t) = ai_paused (beyond_sockets s)"
    "ai_frames_to_run (beyond_sockets t) = ai_frames_to_run (beyond_sockets s)"
    "ai_steps_to_run (beyond_sockets t) = ai_steps_to_run (beyond_sockets s)"
    "ai_debug_buffer (beyond_sockets t) = ai_debug_buffer (beyond_sockets s)"
    "ai_debug_buffer_pos (beyond_sockets t) = ai_debug_buffer_pos (beyond_sockets s)"
    "machine (beyond_sockets t) = machine (beyond_sockets s)"
    "pending (beyond_sockets t) = pending (beyond_sockets s)"
    "sent (beyond_sockets t) = sent (beyond_sockets s)"
    "net_script (beyond_sockets t) = net_script (beyond_sockets s)"
    using assms by simp_all
  then show "AI_enabled t = AI_enabled s" and "AI_debug_port t = AI_debug_port s"
    and "AI_joy_override t = AI_joy_override s" and "AI_trig_override t = AI_trig_override s"
    and "ai_server_fd t = ai_server_fd s" and "ai_paused t = ai_paused s"
    and "ai_frames_to_run t = ai_frames_to_run s" and "ai_steps_to_run t = ai_steps_to_run s"
    and "ai_debug_buffer t = ai_debug_buffer s"
    and "ai_debug_buffer_pos t = ai_debug_buffer_pos s"
    and "machine t = machine s" and "pending t = pending s" and "sent t = sent s"
    and "net_script t = net_script s"
    by (simp_all add: beyond_sockets_def)
qed

lemma fold_DebugWrite_keeps [simp]:
  "AI_enabled (fold AI_DebugWrite bs s) = AI_enabled s"
  "AI_debug_port (fold AI_DebugWrite bs s) = AI_debug_port s"
  "AI_joy_override (fold AI_DebugWrite bs s) = AI_joy_override s"
  "AI_trig_override (fold AI_DebugWrite bs s) = AI_trig_override s"
  "ai_server_fd (fold AI_DebugWrite bs s) = ai_server_fd s"
  "ai_client_fd (fold AI_DebugWrite bs s) = ai_client_fd s"
  "ai_paused (fold AI_DebugWrite bs s) = ai_paused s"
  "ai_frames_to_run (fold AI_DebugWrite bs s) = ai_frames_to_run s"
  "ai_steps_to_run (fold AI_DebugWrite bs s) = ai_steps_to_run s"
  "machine (fold AI_DebugWrite bs s) = machine s"
  "rx (fold AI_DebugWrite bs s) = rx s"
  "rx_end (fold AI_DebugWrite bs s) = rx_end s"
  "pending (fold AI_DebugWrite bs s) = pending s"
  "open_fds (fold AI_DebugWrite bs s) = open_fds s"
  "sent (fold AI_DebugWrite bs s) = sent s"
  "net_script (fold AI_DebugWrite bs s) = net_script s"
  by (induction bs arbitrary: s) (simp_all add: AI_DebugWrite_def)

lemma emulator_command_views [simp]:
  "overrides (emulator_command X name cmd s) = overrides s"
  "scheduler (emulator_command X name cmd s) = scheduler s"
  "wiring (emulator_command X name cmd s) = wiring s"
  by (simp_all add: emulator_command_def AI_SendResponse_def overrides_def scheduler_def
      wiring_def case_prod_beta)

lemma AI_SendResponse_views [simp]:
  "overrides (AI_SendResponse r s) = overrides s"
  "scheduler (AI_SendResponse r s) = scheduler s"
  "wiring (AI_SendResponse r s) = wiring s"
  by (simp_all add: AI_SendResponse_def overrides_def scheduler_def wiring_def)

lemma input_command_views [simp]:
  "overrides (cmd_key X cmd s) = overrides s"
  "scheduler (cmd_key X cmd s) = scheduler s"
  "wiring (cmd_key X cmd s) = wiring s"
  "overrides (cmd_key_release X s) = overrides s"
  "scheduler (cmd_key_release X s) = scheduler s"
  "wiring (cmd_key_release X s) = wiring s"
  "overrides (cmd_paddle cmd s) = overrides s"
  "scheduler (cmd_paddle cmd s) = scheduler s"
  "wiring (cmd_paddle cmd s) = wiring s"
  "overrides (cmd_consol X cmd s) = overrides s"
  "scheduler (cmd_consol X cmd s) = scheduler s"
  "wiring (cmd_consol X cmd s) = wiring s"
  "scheduler (cmd_joystick X cmd s) = scheduler s"
  "wiring (cmd_joystick X cmd s) = wiring s"
  "overrides (cmd_debug_read s) = overrides s"
  "scheduler (cmd_debug_read s) = scheduler s"
  "wiring (cmd_debug_read s) = wiring s"
  by (simp_all add: cmd_key_def cmd_key_release_def cmd_paddle_def cmd_consol_def
      cmd_joystick_def cmd_debug_read_def AI_SendResponse_def overrides_def scheduler_def
      wiring_def Let_def)

lemma update_views [simp]:
  "overrides (s\<lparr>ai_paused := p\<rparr>) = overrides s"
  "overrides (s\<lparr>ai_frames_to_run := n\<rparr>) = overrides s"
  "overrides (s\<lparr>ai_steps_to_run := n\<rparr>) = overrides s"
  "overrides (s\<lparr>AI_debug_port := a\<rparr>) = overrides s"
  "scheduler (s\<lparr>AI_debug_port := a\<rparr>) = scheduler s"
  "wiring (s\<lparr>ai_paused := p\<rparr>) = wiring s"
  "wiring (s\<lparr>ai_frames_to_run := n\<rparr>) = wiring s"
  "wiring (s\<lparr>ai_steps_to_run := n\<rparr>) = wiring s"
  "wiring (s\<lparr>AI_debug_port := a\<rparr>) = wiring s"
  by (simp_all add: overrides_def scheduler_def wiring_def)

text \<open>No command touches the sockets, the session descriptor or the enable flag.\<close>

lemma process_command_wiring [simp]: "wiring (process_command X cmd s) = wiring s"
  by (simp add: process_command_def Let_def)

text \<open>Only the \<^verbatim>\<open>joystick\<close> command writes the override tables.\<close>

lemma process_command_overrides:
  "string_field cmd ''cmd'' 32 \<noteq> ''joystick'' \<Longrightarrow>
   overrides (process_command X cmd s) = overrides s"
  by (simp add: process_command_def Let_def)


lemma process_command_keeps [simp]:
  "AI_enabled (process_command X cmd s) = AI_enabled s"
  "ai_server_fd (process_command X cmd s) = ai_server_fd s"
  "ai_client_fd (process_command X cmd s) = ai_client_fd s"
  "rx (process_command X cmd s) = rx s"
  "rx_end (process_command X cmd s) = rx_end s"
  "pending (process_command X cmd s) = pending s"
  "open_fds (process_command X cmd s) = open_fds s"
  "net_script (process_command X cmd s) = net_script s"
  using process_command_wiring [of X cmd s] by (simp_all add: wiring_def)

lemma process_joystick:
  "string_field cmd ''cmd'' 32 = ''joystick'' \<Longrightarrow>
   process_command X cmd s = cmd_joystick X cmd s"
  by (simp add: process_command_def)

lemma process_run:
  "string_field cmd ''cmd'' 32 = ''run'' \<Longrightarrow>
   process_command X cmd s =
   s\<lparr>ai_frames_to_run := json_get_int cmd ''frames'' 1, ai_paused := 0\<rparr>"
  by (simp add: process_command_def)



lemma check_connections_keeps [simp]:
  "AI_enabled (check_connections s) = AI_enabled s"
  "AI_joy_override (check_connections s) = AI_joy_override s"
  "AI_trig_override (check_connections s) = AI_trig_override s"
  "ai_server_fd (check_connections s) = ai_server_fd s"
  "ai_frames_to_run (check_connections s) = ai_frames_to_run s"
  "ai_steps_to_run (check_connections s) = ai_steps_to_run s"
  "machine (check_connections s) = machine s"
  "sent (check_connections s) = sent s"
  "net_script (check_connections s) = net_script s"
  by (simp_all add: check_connections_def close_fd_def Let_def split: list.splits)

lemma usleep_keeps [simp]:
  "AI_enabled (usleep s) = AI_enabled s"
  "AI_joy_override (usleep s) = AI_joy_override s"
  "AI_trig_override (usleep s) = AI_trig_override s"
  "ai_server_fd (usleep s) = ai_server_fd s"
  "ai_client_fd (usleep s) = ai_client_fd s"
  "ai_paused (usleep s) = ai_paused s"
  "ai_frames_to_run (usleep s) = ai_frames_to_run s"
  "ai_steps_to_run (usleep s) = ai_steps_to_run s"
  "machine (usleep s) = machine s"
  "sent (usleep s) = sent s"
  "open_fds (usleep s) = open_fds s"
  by (cases "net_script s"; cases "hd (net_script s)"; simp add: usleep_def)+

lemma deliver_keeps [simp]:
  "AI_enabled (deliver e s) = AI_enabled s"
  "AI_joy_override (deliver e s) = AI_joy_override s"
  "AI_trig_override (deliver e s) = AI_trig_override s"
  "ai_server_fd (deliver e s) = ai_server_fd s"
  "ai_client_fd (deliver e s) = ai_client_fd s"
  "ai_paused (deliver e s) = ai_paused s"
  "ai_frames_to_run (deliver e s) = ai_frames_to_run s"
  "ai_steps_to_run (deliver e s) = ai_steps_to_run s"
  "machine (deliver e s) = machine s"
  "sent (deliver e s) = sent s"
  "open_fds (deliver e s) = open_fds s"
  "net_script (deliver e s) = net_script s"
  by (cases e; simp)+

lemma AI_Frame_begin_keeps [simp]:
  "AI_enabled (AI_Frame_begin s) = AI_enabled s"
  "AI_joy_override (AI_Frame_begin s) = AI_joy_override s"
  "AI_trig_override (AI_Frame_begin s) = AI_trig_override s"
  "ai_server_fd (AI_Frame_begin s) = ai_server_fd s"
  "ai_steps_to_run (AI_Frame_begin s) = ai_steps_to_run s"
  "machine (AI_Frame_begin s) = machine s"
  "net_script (AI_Frame_begin s) = net_script s"
  by (simp_all add: AI_Frame_begin_def AI_SendResponse_def Let_def)

lemma apply_port_keeps [simp]:
  "AI_enabled (apply_port i s) = AI_enabled s"
  "AI_joy_override (apply_port i s) = AI_joy_override s"
  "AI_trig_override (apply_port i s) = AI_trig_override s"
  "ai_server_fd (apply_port i s) = ai_server_fd s"
  "ai_client_fd (apply_port i s) = ai_client_fd s"
  "ai_paused (apply_port i s) = ai_paused s"
  "ai_frames_to_run (apply_port i s) = ai_frames_to_run s"
  "ai_steps_to_run (apply_port i s) = ai_steps_to_run s"
  "pending (apply_port i s) = pending s"
  "sent (apply_port i s) = sent s"
  "open_fds (apply_port i s) = open_fds s"
  "net_script (apply_port i s) = net_script s"
  by (simp_all add: apply_port_def Let_def)

lemma AI_ApplyInput_keeps [simp]:
  "AI_enabled (AI_ApplyInput s) = AI_enabled s"
  "AI_joy_override (AI_ApplyInput s) = AI_joy_override s"
  "AI_trig_override (AI_ApplyInput s) = AI_trig_override s"
  "ai_server_fd (AI_ApplyInput s) = ai_server_fd s"
  "ai_client_fd (AI_ApplyInput s) = ai_client_fd s"
  "ai_paused (AI_ApplyInput s) = ai_paused s"
  "ai_frames_to_run (AI_ApplyInput s) = ai_frames_to_run s"
  "ai_steps_to_run (AI_ApplyInput s) = ai_steps_to_run s"
  "pending (AI_ApplyInput s) = pending s"
  "sent (AI_ApplyInput s) = sent s"
  "open_fds (AI_ApplyInput s) = open_fds s"
  "net_script (AI_ApplyInput s) = net_script s"
  by (simp_all add: AI_ApplyInput_def)

lemma AI_DebugWrite_keeps [simp]:
  "AI_enabled (AI_DebugWrite b s) = AI_enabled s"
  "AI_joy_override (AI_DebugWrite b s) = AI_joy_override s"
  "AI_trig_override (AI_DebugWrite b s) = AI_trig_override s"
  "ai_server_fd (AI_DebugWrite b s) = ai_server_fd s"
  "ai_client_fd (AI_DebugWrite b s) = ai_client_fd s"
  "ai_paused (AI_DebugWrite b s) = ai_paused s"
  "ai_frames_to_run (AI_DebugWrite b s) = ai_frames_to_run s"
  "ai_steps_to_run (AI_DebugWrite b s) = ai_steps_to_run s"
  "machine (AI_DebugWrite b s) = machine s"
  "pending (AI_DebugWrite b s) = pending s"
  "sent (AI_DebugWrite b s) = sent s"
  "open_fds (AI_DebugWrite b s) = open_fds s"
  "net_script (AI_DebugWrite b s) = net_script s"
  by (simp_all add: AI_DebugWrite_def)

lemma AI_Frame_round_enabled [simp]: "AI_enabled (AI_Frame_round X s) = AI_enabled s"
proof -
  obtain r s1 where read: "read_command AI_BUFFER_SIZE s = (r, s1)"
    by (cases "read_command AI_BUFFER_SIZE s")
  from read_command_frame [OF read] have "beyond_sockets s1 = beyond_sockets s"
    by simp
  then have "AI_enabled s1 = AI_enabled s"
    by (rule beyond_sockets_fields)
  with read show ?thesis
    by (cases r) (simp_all add: AI_Frame_round_def)
qed

lemma apply_port_trig:
  "GTIA_TRIG (machine (apply_port j s)) i =
     (if i = j \<and> AI_trig_override s j \<ge> 0 then word_of_int (AI_trig_override s j)
      else GTIA_TRIG (machine s) i)"
  by (simp add: apply_port_def Let_def)

lemma AI_ApplyInput_trig:
  "GTIA_TRIG (machine (AI_ApplyInput s)) i =
     (if AI_enabled s \<noteq> 0 \<and> i < 4 \<and> AI_trig_override s i \<ge> 0
      then word_of_int (AI_trig_override s i) else GTIA_TRIG (machine s) i)"
proof -
  have "i < 4 \<longleftrightarrow> i = 0 \<or> i = 1 \<or> i = 2 \<or> i = 3" by arith
  then show ?thesis
    by (auto simp: AI_ApplyInput_def apply_port_trig)
qed

text \<open>A session attached by the first connection is a reachable state.\<close>

lemma session_state_reachable: "reachable X (session_state bytes)"
proof -
  have "reachable X boot_state"
    by (rule reachable.start) (simp add: initial_def boot_state_def)
  then have "reachable X (deliver (Recv 4 bytes) (deliver (Connect 4) boot_state))"
    by (intro reachable.network)
  then have "reachable X (AI_Frame_begin (deliver (Recv 4 bytes) (deliver (Connect 4) boot_state)))"
    by (rule reachable.frame_begin) (simp add: boot_state_def)
  moreover have "AI_Frame_begin (deliver (Recv 4 bytes) (deliver (Connect 4) boot_state)) =
      session_state bytes"
    by (simp add: AI_Frame_begin_def check_connections_def Let_def boot_state_def
        session_state_def fun_eq_iff)
  ultimately show ?thesis by simp
qed

lemma check_connections_idle: "pending s = [] \<Longrightarrow> check_connections s = s"
  by (simp add: check_connections_def)


section \<open>Field extraction\<close>

text \<open>
  C8, as amended. A field is absent when \<^verbatim>\<open>strstr\<close> does not find its search text, the
  key between double quotes followed by a colon; all three extractors then give the
  caller's default (the string extractor NULL, which leaves the caller's empty buffer).
  For a field that is found, with \<open>v\<close> the text after the colon and the blanks: the
  integer extractor gives the default when \<open>v\<close> starts with a double quote and what
  \<^verbatim>\<open>atoi\<close> makes of \<open>v\<close> otherwise, so that a value that is not a number, such as a
  boolean, gives 0 and not the default; the boolean extractor gives 1 when \<open>v\<close> begins
  with the four characters \<^verbatim>\<open>true\<close>, 0 when it begins with the five characters
  \<^verbatim>\<open>false\<close>, whatever follows them, and the default for every other value; the string
  extractor gives NULL unless \<open>v\<close> starts with a double quote.
\<close>

theorem field_extraction_defaults:
  "(strstr json (search_key key) = None \<longrightarrow>
      json_get_int json key d = d \<and> json_get_bool json key d = d \<and>
      json_get_string json key n = None) \<and>
   (json_value_at json key = Some (CHR 0x22 # v) \<longrightarrow>
      json_get_int json key d = d \<and> json_get_bool json key d = d) \<and>
   (json_value_at json key = Some v \<and> take 4 v \<noteq> ''true'' \<and> take 5 v \<noteq> ''false'' \<longrightarrow>
      json_get_bool json key d = d) \<and>
   (json_value_at json key = Some v \<and> (v = [] \<or> hd v \<noteq> CHR 0x22) \<longrightarrow>
      json_get_string json key n = None \<and> json_get_int json key d = atoi v) \<and>
   (json_value_at json key = Some (''true'' @ w) \<longrightarrow> json_get_bool json key d = 1) \<and>
   (json_value_at json key = Some (''false'' @ w) \<longrightarrow> json_get_bool json key d = 0)"
  by (auto simp: json_get_int_def json_get_bool_def json_get_string_def json_value_at_def
      split: option.splits list.splits)

theorem field_extraction_defaults_witness:
  "strstr ''{\"cmd\":\"run\"}'' (search_key ''frames'') = None \<and>
   json_value_at ''{\"frames\":\"7\"}'' ''frames'' = Some (CHR 0x22 # ''7\"}'') \<and>
   json_value_at ''{\"fire\":1}'' ''fire'' = Some ''1}'' \<and>
   json_value_at ''{\"frames\":true}'' ''frames'' = Some ''true}'' \<and>
   json_value_at ''{\"fire\":truely}'' ''fire'' = Some (''true'' @ ''ly}'') \<and>
   json_value_at ''{\"fire\":falsetto}'' ''fire'' = Some (''false'' @ ''tto}'') \<and>
   json_get_int ''{\"cmd\":\"run\"}'' ''frames'' 1 = 1 \<and>
   json_get_bool ''{\"cmd\":\"run\"}'' ''frames'' 1 = 1 \<and>
   json_get_string ''{\"cmd\":\"run\"}'' ''frames'' 32 = None \<and>
   json_get_int ''{\"frames\":\"7\"}'' ''frames'' 1 = 1 \<and>
   json_get_bool ''{\"fire\":1}'' ''fire'' 0 = 0 \<and>
   json_get_int ''{\"frames\":true}'' ''frames'' 1 = atoi ''true}'' \<and>
   json_get_bool ''{\"fire\":truely}'' ''fire'' 0 = 1 \<and>
   json_get_bool ''{\"fire\":falsetto}'' ''fire'' 1 = 0"
proof -
  have absent: "strstr ''{\"cmd\":\"run\"}'' (search_key ''frames'') = None"
    by (simp add: search_key_def)
  have quoted: "json_value_at ''{\"frames\":\"7\"}'' ''frames'' = Some (CHR 0x22 # ''7\"}'')"
    by (simp add: json_value_at_def search_key_def skip_blanks_def)
  have number: "json_value_at ''{\"fire\":1}'' ''fire'' = Some ''1}'' \<and>
      take 4 ''1}'' \<noteq> ''true'' \<and> take 5 ''1}'' \<noteq> ''false''"
    by (simp add: json_value_at_def search_key_def skip_blanks_def)
  have word: "json_value_at ''{\"frames\":true}'' ''frames'' = Some ''true}'' \<and>
      (''true}'' = [] \<or> hd ''true}'' \<noteq> CHR 0x22)"
    by (simp add: json_value_at_def search_key_def skip_blanks_def)
  have truely: "json_value_at ''{\"fire\":truely}'' ''fire'' = Some (''true'' @ ''ly}'')"
    by (simp add: json_value_at_def search_key_def skip_blanks_def)
  have falsetto: "json_value_at ''{\"fire\":falsetto}'' ''fire'' = Some (''false'' @ ''tto}'')"
    by (simp add: json_value_at_def search_key_def skip_blanks_def)
  note parts = field_extraction_defaults [where d = 1 and n = 32]
  have c1: "json_get_int ''{\"cmd\":\"run\"}'' ''frames'' 1 = 1 \<and>
      json_get_bool ''{\"cmd\":\"run\"}'' ''frames'' 1 = 1 \<and>
      json_get_string ''{\"cmd\":\"run\"}'' ''frames'' 32 = None"
    by (rule parts [THEN conjunct1, THEN mp, OF absent])
  have c2: "json_get_int ''{\"frames\":\"7\"}'' ''frames'' 1 = 1 \<and>
      json_get_bool ''{\"frames\":\"7\"}'' ''frames'' 1 = 1"
    by (rule parts [THEN conjunct2, THEN conjunct1, THEN mp, OF quoted])
  have c3: "json_get_bool ''{\"fire\":1}'' ''fire'' 0 = 0"
    by (rule field_extraction_defaults
        [THEN conjunct2, THEN conjunct2, THEN conjunct1, THEN mp, OF number])
  have c4: "json_get_string ''{\"frames\":true}'' ''frames'' 32 = None \<and>
      json_get_int ''{\"frames\":true}'' ''frames'' 1 = atoi ''true}''"
    by (rule parts [THEN conjunct2, THEN conjunct2, THEN conjunct2, THEN conjunct1, THEN mp,
          OF word])
  have c5: "json_get_bool ''{\"fire\":truely}'' ''fire'' 0 = 1"
    by (rule field_extraction_defaults
        [THEN conjunct2, THEN conjunct2, THEN conjunct2, THEN conjunct2, THEN conjunct1,
          THEN mp, OF truely])
  have c6: "json_get_bool ''{\"fire\":falsetto}'' ''fire'' 1 = 0"
    by (rule field_extraction_defaults
        [THEN conjunct2, THEN conjunct2, THEN conjunct2, THEN conjunct2, THEN conjunct2,
          THEN mp, OF falsetto])
  from absent quoted number word truely falsetto c1 c2 c3 c4 c5 c6 show ?thesis by simp
qed

text \<open>
  C8 as stated fails: a boolean where an integer is wanted is an unexpected shape, and
  the integer extractor returns 0 for it, not the default 1 of the \<^verbatim>\<open>run\<close> command.
\<close>

theorem json_get_int_counterexample:
  "json_value_at ''{\"cmd\":\"run\",\"frames\":true}'' ''frames'' = Some ''true}'' \<and>
   json_get_int ''{\"cmd\":\"run\",\"frames\":true}'' ''frames'' 1 = 0"
  by (simp add: json_get_int_def json_value_at_def search_key_def skip_blanks_def atoi_eval
      isspace_def isdigit_def)


section \<open>Ports out of range\<close>

text \<open>
  C9, as amended. The port of a command is the \<^verbatim>\<open>int\<close> that \<^verbatim>\<open>json_get_int\<close> reads from
  its \<^verbatim>\<open>port\<close> field, so the result of \<^verbatim>\<open>atoi\<close>, cut to 32 bits. A \<^verbatim>\<open>joystick\<close> command
  whose port is outside 0 to 3 and a \<^verbatim>\<open>paddle\<close> command whose port is outside 0 to 7
  change nothing: the whole effect of the command is the response, and the response is
  the \<^verbatim>\<open>ok\<close> one.
\<close>

theorem out_of_range_port_is_ignored:
  "(string_field cmd ''cmd'' 32 = ''joystick'' \<and>
      (json_get_int cmd ''port'' 0 < 0 \<or> json_get_int cmd ''port'' 0 \<ge> 4) \<longrightarrow>
      process_command X cmd s = AI_SendResponse ok_response s) \<and>
   (string_field cmd ''cmd'' 32 = ''paddle'' \<and>
      (json_get_int cmd ''port'' 0 < 0 \<or> json_get_int cmd ''port'' 0 \<ge> 8) \<longrightarrow>
      process_command X cmd s = AI_SendResponse ok_response s)"
  by (auto simp: process_command_def cmd_joystick_def cmd_paddle_def Let_def)

theorem out_of_range_port_is_ignored_witness:
  "string_field ''{\"cmd\":\"joystick\",\"port\":4,\"direction\":\"up\",\"fire\":true}'' ''cmd'' 32
     = ''joystick'' \<and>
   json_get_int ''{\"cmd\":\"joystick\",\"port\":4,\"direction\":\"up\",\"fire\":true}'' ''port'' 0
     = 4 \<and>
   process_command sample_collab
     ''{\"cmd\":\"joystick\",\"port\":4,\"direction\":\"up\",\"fire\":true}'' (session_state [])
     = AI_SendResponse ok_response (session_state []) \<and>
   string_field ''{\"cmd\":\"paddle\",\"port\":-1,\"value\":100}'' ''cmd'' 32 = ''paddle'' \<and>
   json_get_int ''{\"cmd\":\"paddle\",\"port\":-1,\"value\":100}'' ''port'' 0 = - 1 \<and>
   process_command sample_collab ''{\"cmd\":\"paddle\",\"port\":-1,\"value\":100}''
     (session_state [])
     = AI_SendResponse ok_response (session_state [])"
proof -
  have j1: "string_field ''{\"cmd\":\"joystick\",\"port\":4,\"direction\":\"up\",\"fire\":true}''
      ''cmd'' 32 = ''joystick''"
    by (simp add: string_field_def json_get_string_def json_value_at_def search_key_def
        skip_blanks_def)
  have j2: "json_get_int ''{\"cmd\":\"joystick\",\"port\":4,\"direction\":\"up\",\"fire\":true}''
      ''port'' 0 = 4"
    by (simp add: json_get_int_def json_value_at_def search_key_def skip_blanks_def atoi_eval
        isspace_def isdigit_def)
  have p1: "string_field ''{\"cmd\":\"paddle\",\"port\":-1,\"value\":100}'' ''cmd'' 32 = ''paddle''"
    by (simp add: string_field_def json_get_string_def json_value_at_def search_key_def
        skip_blanks_def)
  have p2: "json_get_int ''{\"cmd\":\"paddle\",\"port\":-1,\"value\":100}'' ''port'' 0 = - 1"
    by (simp add: json_get_int_def json_value_at_def search_key_def skip_blanks_def atoi_eval
        isspace_def isdigit_def)
  have j: "process_command sample_collab
      ''{\"cmd\":\"joystick\",\"port\":4,\"direction\":\"up\",\"fire\":true}'' (session_state [])
      = AI_SendResponse ok_response (session_state [])"
    by (rule out_of_range_port_is_ignored [THEN conjunct1, THEN mp]) (simp add: j1 j2)
  have p: "process_command sample_collab ''{\"cmd\":\"paddle\",\"port\":-1,\"value\":100}''
      (session_state [])
      = AI_SendResponse ok_response (session_state [])"
    by (rule out_of_range_port_is_ignored [THEN conjunct2, THEN mp]) (simp add: p1 p2)
  from j1 j2 p1 p2 j p show ?thesis by simp
qed

text \<open>
  C9 as stated fails: the response to a \<^verbatim>\<open>joystick\<close> command for port 4 carries the
  status \<^verbatim>\<open>ok\<close>, not an error.
\<close>

theorem out_of_range_port_counterexample:
  "sent (process_command sample_collab
      ''{\"cmd\":\"joystick\",\"port\":4,\"direction\":\"up\",\"fire\":true}'' (session_state []))
   = [(4, ''15'' @ [CHR 0x0A] @ ''{\"status\":\"ok\"}'')]"
  by code_simp

text \<open>
  A port field whose digits are beyond the range of \<^verbatim>\<open>int\<close> is no port out of range
  when its low 32 bits are a port: \<^verbatim>\<open>4294967296\<close> is port 0 for \<^verbatim>\<open>joystick\<close>, and
  \<^verbatim>\<open>4294967303\<close> is port 7 for \<^verbatim>\<open>paddle\<close>; the tables are written.
\<close>

lemma port_is_cut_to_int:
  "json_get_int ''{\"cmd\":\"joystick\",\"port\":4294967296,\"direction\":\"up\",\"fire\":true}''
     ''port'' 0 = 0 \<and>
   AI_joy_override (process_command sample_collab
      ''{\"cmd\":\"joystick\",\"port\":4294967296,\"direction\":\"up\",\"fire\":true}''
      (session_state [])) 0 = 14 \<and>
   AI_trig_override (process_command sample_collab
      ''{\"cmd\":\"joystick\",\"port\":4294967296,\"direction\":\"up\",\"fire\":true}''
      (session_state [])) 0 = 0 \<and>
   json_get_int ''{\"cmd\":\"paddle\",\"port\":4294967303,\"value\":100}'' ''port'' 0 = 7 \<and>
   POKEY_POT_input (machine (process_command sample_collab
      ''{\"cmd\":\"paddle\",\"port\":4294967303,\"value\":100}'' (session_state []))) 7 = 100"
  by code_simp

section \<open>A superseding connection\<close>

text \<open>
  C6. When \<^verbatim>\<open>check_connections\<close> accepts a connection while a session is attached (the
  operating system hands out a descriptor that is not in use), the old descriptor is
  closed, the new one is the session, it is the only client descriptor left open, and
  the scheduler is paused. Nothing is assumed about \<open>ai_paused\<close>, \<open>ai_frames_to_run\<close>
  and \<open>ai_steps_to_run\<close> before.
\<close>

theorem accept_supersedes_session:
  assumes "ai_server_fd s \<ge> 0" and "pending s = client # rest" and "client \<ge> 0"
    and "ai_client_fd s \<ge> 0" and "open_fds s = {ai_client_fd s}"
    and "client \<noteq> ai_client_fd s"
  shows "ai_client_fd (check_connections s) = client \<and>
         open_fds (check_connections s) = {client} \<and>
         ai_client_fd s \<notin> open_fds (check_connections s) \<and>
         ai_paused (check_connections s) = 1"
  using assms by (auto simp: check_connections_def close_fd_def Let_def)

theorem accept_supersedes_session_witness:
  "ai_client_fd (check_connections
      ((session_state [])\<lparr>pending := [5], ai_paused := 0, ai_frames_to_run := 7\<rparr>)) = 5 \<and>
   open_fds (check_connections
      ((session_state [])\<lparr>pending := [5], ai_paused := 0, ai_frames_to_run := 7\<rparr>)) = {5} \<and>
   ai_paused (check_connections
      ((session_state [])\<lparr>pending := [5], ai_paused := 0, ai_frames_to_run := 7\<rparr>)) = 1"
  using accept_supersedes_session
    [of "(session_state [])\<lparr>pending := [5], ai_paused := 0, ai_frames_to_run := 7\<rparr>" 5 "[]"]
  by (simp add: session_state_def boot_state_def)


section \<open>The debug capture buffer\<close>

lemma fold_DebugWrite_pos:
  "ai_debug_buffer_pos s + length bs \<le> AI_DEBUG_BUFFER_SIZE \<Longrightarrow>
   ai_debug_buffer_pos (fold AI_DebugWrite bs s) = ai_debug_buffer_pos s + length bs"
  by (induction bs arbitrary: s) (simp_all add: AI_DebugWrite_def)

lemma fold_DebugWrite_old:
  "i < ai_debug_buffer_pos s \<Longrightarrow>
   ai_debug_buffer (fold AI_DebugWrite bs s) i = ai_debug_buffer s i"
  by (induction bs arbitrary: s) (simp_all add: AI_DebugWrite_def)

lemma fold_DebugWrite_new:
  "ai_debug_buffer_pos s + length bs \<le> AI_DEBUG_BUFFER_SIZE \<Longrightarrow> j < length bs \<Longrightarrow>
   ai_debug_buffer (fold AI_DebugWrite bs s) (ai_debug_buffer_pos s + j) = bs ! j"
proof (induction bs arbitrary: s j)
  case Nil
  then show ?case by simp
next
  case (Cons b bs)
  let ?t = "AI_DebugWrite b s"
  from Cons.prems have room: "ai_debug_buffer_pos s < AI_DEBUG_BUFFER_SIZE" by simp
  then have pos: "ai_debug_buffer_pos ?t = ai_debug_buffer_pos s + 1"
    and here: "ai_debug_buffer ?t (ai_debug_buffer_pos s) = b"
    by (simp_all add: AI_DebugWrite_def)
  show ?case
  proof (cases j)
    case 0
    then show ?thesis
      using fold_DebugWrite_old [of "ai_debug_buffer_pos s" ?t bs] pos here by simp
  next
    case (Suc k)
    then show ?thesis
      using Cons.IH [of ?t k] Cons.prems pos by simp
  qed
qed

lemma captured_bytes:
  assumes "ai_debug_buffer_pos s = 0" and "length bs \<le> AI_DEBUG_BUFFER_SIZE"
  shows "map (ai_debug_buffer (fold AI_DebugWrite bs s)) [0 ..< length bs] = bs"
  using assms fold_DebugWrite_new [of s bs]
  by (intro nth_equalityI) simp_all

lemma length_dec_nat: "n < 1000 \<Longrightarrow> length (dec_nat n) \<le> 3"
  by (subst dec_nat.simps, subst dec_nat.simps, subst dec_nat.simps) simp

lemma length_fmt_byte: "length (fmt_d (uint (b :: u8))) \<le> 3"
proof -
  have "unat b < 2 ^ 8" using unsigned_less [of b] by simp
  then have "length (dec_nat (unat b)) \<le> 3" by (intro length_dec_nat) simp
  then show ?thesis by (simp add: fmt_d_def)
qed

lemma length_piece: "length (piece buf i) \<le> 4"
  using length_fmt_byte [of "buf i"] by (cases "i = 0") (simp_all add: piece_def)

lemma debug_data_concat:
  "length response + 4 * length idx < AI_MAX_RESPONSE - 100 \<Longrightarrow>
   debug_data buf idx response = response @ concat (map (piece buf) idx)"
proof (induction idx arbitrary: response)
  case Nil
  then show ?case by simp
next
  case (Cons i idx)
  have "length (response @ piece buf i) + 4 * length idx < AI_MAX_RESPONSE - 100"
    using Cons.prems length_piece [of buf i] by simp
  from Cons.IH [OF this] Cons.prems show ?case
    by (simp add: piece_def)
qed

lemma length_concat_piece: "length (concat (map (piece buf) idx)) \<le> 4 * length idx"
proof (induction idx)
  case Nil
  then show ?case by simp
next
  case (Cons i idx)
  then show ?case using length_piece [of buf i] by simp
qed

lemma debug_ascii_map:
  "length response + length idx < AI_MAX_RESPONSE - 10 \<Longrightarrow>
   debug_ascii buf idx response = response @ map (\<lambda>i. printable (buf i)) idx"
  by (induction idx arbitrary: response) simp_all

lemma csv_snoc: "csv (xs @ [x]) = (if xs = [] then x else csv xs @ '','' @ x)"
  by (induction xs rule: csv.induct) simp_all

lemma concat_piece_csv:
  "concat (map (piece buf) [0 ..< n]) = csv (map (\<lambda>i. fmt_d (uint (buf i))) [0 ..< n])"
proof (induction n)
  case 0
  then show ?case by simp
next
  case (Suc n)
  then show ?case by (simp add: csv_snoc piece_def)
qed

lemma debug_read_response_text:
  assumes "ai_debug_buffer_pos s \<le> AI_DEBUG_BUFFER_SIZE"
  shows "debug_read_response s =
         debug_read_text (map (ai_debug_buffer s) [0 ..< ai_debug_buffer_pos s])"
proof -
  let ?idx = "[0 ..< ai_debug_buffer_pos s]"
  let ?buf = "ai_debug_buffer s"
  let ?head = "''{\"status\":\"ok\",\"data\":[''"
  have n: "length ?idx \<le> 4096"
    using assms by (simp add: AI_DEBUG_BUFFER_SIZE_def)
  have "length ?head + 4 * length ?idx < AI_MAX_RESPONSE - 100"
    using n by (simp add: AI_MAX_RESPONSE_def)
  then have r1: "debug_data ?buf ?idx ?head = ?head @ concat (map (piece ?buf) ?idx)"
    by (rule debug_data_concat)
  have "length (concat (map (piece ?buf) ?idx)) \<le> 4 * length ?idx"
    by (rule length_concat_piece)
  then have "length ((?head @ concat (map (piece ?buf) ?idx)) @ ''],\"ascii\":\"'') + length ?idx
      < AI_MAX_RESPONSE - 10"
    using n by (simp add: AI_MAX_RESPONSE_def)
  then have r3: "debug_ascii ?buf ?idx ((?head @ concat (map (piece ?buf) ?idx)) @ ''],\"ascii\":\"'') =
      ((?head @ concat (map (piece ?buf) ?idx)) @ ''],\"ascii\":\"'') @ map (\<lambda>i. printable (?buf i)) ?idx"
    by (rule debug_ascii_map)
  show ?thesis
    unfolding debug_read_response_def Let_def r1 r3
    by (simp add: debug_read_text_def concat_piece_csv comp_def)
qed


lemma process_debug_enable:
  "string_field cmd ''cmd'' 32 = ''debug_enable'' \<Longrightarrow>
   process_command X cmd s =
   AI_SendResponse ok_response (s\<lparr>AI_debug_port := json_get_int cmd ''addr'' 0xD7FF\<rparr>)"
  by (simp add: process_command_def)

lemma process_debug_read:
  "string_field cmd ''cmd'' 32 = ''debug_read'' \<Longrightarrow> process_command X cmd s = cmd_debug_read s"
  by (simp add: process_command_def)

text \<open>
  C5. Starting from an empty buffer, after a \<^verbatim>\<open>debug_enable\<close> command and a sequence
  \<open>bs\<close> of at most 4096 calls of the write hook, a \<^verbatim>\<open>debug_read\<close> command sends exactly
  one response, whose data array lists the bytes of \<open>bs\<close> in the order they were written,
  and empties the buffer; a second \<^verbatim>\<open>debug_read\<close> right after it sends the response with
  the empty array. A write that finds the buffer full leaves the whole state as it is.
\<close>

theorem debug_capture_roundtrip:
  assumes "ai_debug_buffer_pos s = 0" and "length bs \<le> AI_DEBUG_BUFFER_SIZE"
    and "ai_client_fd s \<ge> 0"
    and "string_field en ''cmd'' 32 = ''debug_enable''"
    and "string_field rd ''cmd'' 32 = ''debug_read''"
  shows "(let s1 = fold AI_DebugWrite bs (process_command X en s);
              s2 = process_command X rd s1;
              s3 = process_command X rd s2
          in sent s2 = sent s1 @ [(ai_client_fd s, envelope (debug_read_text bs))] \<and>
             ai_debug_buffer_pos s2 = 0 \<and>
             sent s3 = sent s2 @ [(ai_client_fd s, envelope (debug_read_text []))]) \<and>
         (\<not> ai_debug_buffer_pos t < AI_DEBUG_BUFFER_SIZE \<longrightarrow> AI_DebugWrite b t = t)"
proof -
  let ?s0 = "process_command X en s"
  let ?s1 = "fold AI_DebugWrite bs ?s0"
  let ?s2 = "process_command X rd ?s1"
  let ?s3 = "process_command X rd ?s2"
  have s0: "ai_debug_buffer_pos ?s0 = 0" "ai_client_fd ?s0 = ai_client_fd s"
    using assms(1,4) by (simp_all add: process_debug_enable AI_SendResponse_def)
  have pos1: "ai_debug_buffer_pos ?s1 = length bs"
    using fold_DebugWrite_pos [of ?s0 bs] s0 assms(2) by simp
  have buf1: "map (ai_debug_buffer ?s1) [0 ..< length bs] = bs"
    using captured_bytes [of ?s0 bs] s0 assms(2) by simp
  have text1: "debug_read_response ?s1 = debug_read_text bs"
    using debug_read_response_text [of ?s1] pos1 buf1 assms(2) by simp
  have fd1: "ai_client_fd ?s1 = ai_client_fd s"
    using s0 by simp
  have s2: "?s2 = AI_SendResponse (debug_read_text bs) (?s1\<lparr>ai_debug_buffer_pos := 0\<rparr>)"
    using assms(5) text1 by (simp add: process_debug_read cmd_debug_read_def)
  have sent2: "sent ?s2 = sent ?s1 @ [(ai_client_fd s, envelope (debug_read_text bs))]"
    and pos2: "ai_debug_buffer_pos ?s2 = 0" and fd2: "ai_client_fd ?s2 = ai_client_fd s"
    using fd1 assms(3) by (simp_all add: s2 AI_SendResponse_def)
  have text2: "debug_read_response ?s2 = debug_read_text []"
    using debug_read_response_text [of ?s2] pos2 by simp
  have "?s3 = AI_SendResponse (debug_read_text []) (?s2\<lparr>ai_debug_buffer_pos := 0\<rparr>)"
    using assms(5) text2 by (simp add: process_debug_read cmd_debug_read_def)
  then have sent3: "sent ?s3 = sent ?s2 @ [(ai_client_fd s, envelope (debug_read_text []))]"
    using fd2 assms(3) by (simp add: AI_SendResponse_def)
  have full: "\<not> ai_debug_buffer_pos t < AI_DEBUG_BUFFER_SIZE \<longrightarrow> AI_DebugWrite b t = t"
    by (simp add: AI_DebugWrite_def)
  from sent2 pos2 sent3 full show ?thesis
    by (simp add: Let_def)
qed

theorem debug_capture_roundtrip_witness:
  "(let s1 = fold AI_DebugWrite [72, 105]
               (process_command sample_collab ''{\"cmd\":\"debug_enable\",\"addr\":55295}''
                  (session_state []));
        s2 = process_command sample_collab ''{\"cmd\":\"debug_read\"}'' s1;
        s3 = process_command sample_collab ''{\"cmd\":\"debug_read\"}'' s2
    in sent s2 = sent s1 @ [(4, envelope ''{\"status\":\"ok\",\"data\":[72,105],\"ascii\":\"Hi\"}'')] \<and>
       sent s3 = sent s2 @ [(4, envelope ''{\"status\":\"ok\",\"data\":[],\"ascii\":\"\"}'')]) \<and>
   AI_DebugWrite 33 ((session_state [])\<lparr>ai_debug_buffer_pos := 4096\<rparr>)
     = (session_state [])\<lparr>ai_debug_buffer_pos := 4096\<rparr>"
proof -
  have en: "string_field ''{\"cmd\":\"debug_enable\",\"addr\":55295}'' ''cmd'' 32 = ''debug_enable''"
    by (simp add: string_field_def json_get_string_def json_value_at_def search_key_def
        skip_blanks_def)
  have rd: "string_field ''{\"cmd\":\"debug_read\"}'' ''cmd'' 32 = ''debug_read''"
    by (simp add: string_field_def json_get_string_def json_value_at_def search_key_def
        skip_blanks_def)
  have empty: "ai_debug_buffer_pos (session_state []) = 0"
    and attached: "ai_client_fd (session_state []) = 4"
    by (simp_all add: session_state_def boot_state_def)
  have few: "length [72, 105 :: u8] \<le> AI_DEBUG_BUFFER_SIZE"
    by (simp add: AI_DEBUG_BUFFER_SIZE_def)
  have full: "\<not> ai_debug_buffer_pos ((session_state [])\<lparr>ai_debug_buffer_pos := 4096\<rparr>)
      < AI_DEBUG_BUFFER_SIZE"
    by (simp add: AI_DEBUG_BUFFER_SIZE_def)
  have t1: "debug_read_text [72, 105] = ''{\"status\":\"ok\",\"data\":[72,105],\"ascii\":\"Hi\"}''"
    by code_simp
  have t2: "debug_read_text [] = ''{\"status\":\"ok\",\"data\":[],\"ascii\":\"\"}''"
    by code_simp
  show ?thesis
    using debug_capture_roundtrip [of "session_state []" "[72, 105]"
        "''{\"cmd\":\"debug_enable\",\"addr\":55295}''" "''{\"cmd\":\"debug_read\"}''" sample_collab
        "(session_state [])\<lparr>ai_debug_buffer_pos := 4096\<rparr>" 33,
        OF empty few _ en rd] attached full
    by (simp add: t1 t2 Let_def)
qed


section \<open>The trigger override\<close>

lemma cmd_joystick_trig:
  "AI_trig_override (cmd_joystick X cmd s) i = AI_trig_override s i \<or>
   AI_trig_override (cmd_joystick X cmd s) i = - 1 \<or>
   AI_trig_override (cmd_joystick X cmd s) i = 0"
  by (simp add: cmd_joystick_def AI_SendResponse_def Let_def)

lemma process_command_trig:
  "AI_trig_override (process_command X cmd s) i = AI_trig_override s i \<or>
   AI_trig_override (process_command X cmd s) i = - 1 \<or>
   AI_trig_override (process_command X cmd s) i = 0"
proof (cases "string_field cmd ''cmd'' 32 = ''joystick''")
  case True
  then show ?thesis using cmd_joystick_trig [of X cmd s i] by (simp add: process_joystick)
next
  case False
  from process_command_overrides [OF this, of X s] show ?thesis
    by (simp add: overrides_def)
qed

lemma AI_Frame_round_trig:
  "AI_trig_override (AI_Frame_round X s) i = AI_trig_override s i \<or>
   AI_trig_override (AI_Frame_round X s) i = - 1 \<or>
   AI_trig_override (AI_Frame_round X s) i = 0"
proof -
  obtain r s1 where read: "read_command AI_BUFFER_SIZE s = (r, s1)"
    by (cases "read_command AI_BUFFER_SIZE s")
  from read_command_frame [OF read] have "beyond_sockets s1 = beyond_sockets s"
    by simp
  then have "AI_trig_override s1 = AI_trig_override s"
    by (rule beyond_sockets_fields)
  then have start: "AI_trig_override s1 i = AI_trig_override s i" by simp
  show ?thesis
  proof (cases r)
    case None
    with read start show ?thesis by (simp add: AI_Frame_round_def)
  next
    case (Some buf)
    with read have "AI_trig_override (AI_Frame_round X s) i =
        AI_trig_override (process_command X (c_str buf) s1) i"
      by (simp add: AI_Frame_round_def)
    with start process_command_trig [of X "c_str buf" s1 i] show ?thesis by simp
  qed
qed

lemma reachable_trig:
  "reachable X s \<Longrightarrow> AI_trig_override s i = - 1 \<or> AI_trig_override s i = 0"
proof (induction rule: reachable.induct)
  case (start s)
  then show ?case by (simp add: initial_def)
next
  case (frame_round s)
  then show ?case using AI_Frame_round_trig [of X s i] by auto
qed simp_all

text \<open>
  C10. In every reachable state each entry of the trigger-override table is -1 (no
  override) or 0 (pressed). A \<^verbatim>\<open>joystick\<close> command without \<^verbatim>\<open>fire\<close> puts -1 in its
  port's entry, and \<^verbatim>\<open>AI_ApplyInput\<close> leaves every trigger flag either as the hardware
  poll set it or at 0: it never forces a trigger to the released value.
\<close>

theorem trigger_override_never_released:
  assumes "reachable X s"
  shows "(AI_trig_override s i = - 1 \<or> AI_trig_override s i = 0) \<and>
         (GTIA_TRIG (machine (AI_ApplyInput s)) i = GTIA_TRIG (machine s) i \<or>
          GTIA_TRIG (machine (AI_ApplyInput s)) i = 0) \<and>
         (string_field cmd ''cmd'' 32 = ''joystick'' \<and> json_get_bool cmd ''fire'' 0 = 0 \<and>
          0 \<le> json_get_int cmd ''port'' 0 \<and> json_get_int cmd ''port'' 0 < 4 \<longrightarrow>
          AI_trig_override (process_command X cmd s) (nat (json_get_int cmd ''port'' 0)) = - 1)"
proof -
  from assms have table: "AI_trig_override s i = - 1 \<or> AI_trig_override s i = 0"
    by (rule reachable_trig)
  then have flag: "GTIA_TRIG (machine (AI_ApplyInput s)) i = GTIA_TRIG (machine s) i \<or>
      GTIA_TRIG (machine (AI_ApplyInput s)) i = 0"
    by (auto simp: AI_ApplyInput_trig)
  have "string_field cmd ''cmd'' 32 = ''joystick'' \<and> json_get_bool cmd ''fire'' 0 = 0 \<and>
      0 \<le> json_get_int cmd ''port'' 0 \<and> json_get_int cmd ''port'' 0 < 4 \<longrightarrow>
      AI_trig_override (process_command X cmd s) (nat (json_get_int cmd ''port'' 0)) = - 1"
    by (simp add: process_joystick cmd_joystick_def AI_SendResponse_def Let_def)
  then have clear: "string_field cmd ''cmd'' 32 = ''joystick'' \<and> json_get_bool cmd ''fire'' 0 = 0 \<and>
      0 \<le> json_get_int cmd ''port'' 0 \<and> json_get_int cmd ''port'' 0 < 4 \<longrightarrow>
      AI_trig_override (process_command X cmd s) (nat (json_get_int cmd ''port'' 0)) = - 1" .
  show ?thesis
    by (rule conjI [OF table conjI [OF flag clear]])
qed

theorem trigger_override_never_released_witness:
  "reachable sample_collab fire_session \<and>
   AI_trig_override fire_session 1 = 0 \<and>
   GTIA_TRIG (machine fire_session) 1 = 1 \<and>
   GTIA_TRIG (machine (AI_ApplyInput fire_session)) 1 = 0 \<and>
   sent fire_session = [(4, envelope ok_response)] \<and>
   AI_trig_override
     (process_command sample_collab ''{\"cmd\":\"joystick\",\"port\":1,\"fire\":false}'' fire_session) 1
   = - 1"
proof -
  let ?s = "session_state (request ''{\"cmd\":\"joystick\",\"port\":1,\"direction\":\"left\",\"fire\":true}'')"
  have "reachable sample_collab (AI_Frame_round sample_collab ?s)"
    by (rule reachable.frame_round [OF session_state_reachable])
      (simp_all add: session_state_def boot_state_def)
  then have reach: "reachable sample_collab fire_session"
    by (simp add: fire_session_def)
  have evaluated: "AI_trig_override fire_session 1 = 0" "GTIA_TRIG (machine fire_session) 1 = 1"
    "GTIA_TRIG (machine (AI_ApplyInput fire_session)) 1 = 0"
    "sent fire_session = [(4, envelope ok_response)]"
    by code_simp+
  have off: "string_field ''{\"cmd\":\"joystick\",\"port\":1,\"fire\":false}'' ''cmd'' 32 = ''joystick'' \<and>
      json_get_bool ''{\"cmd\":\"joystick\",\"port\":1,\"fire\":false}'' ''fire'' 0 = 0 \<and>
      0 \<le> json_get_int ''{\"cmd\":\"joystick\",\"port\":1,\"fire\":false}'' ''port'' 0 \<and>
      json_get_int ''{\"cmd\":\"joystick\",\"port\":1,\"fire\":false}'' ''port'' 0 < 4"
    and port: "nat (json_get_int ''{\"cmd\":\"joystick\",\"port\":1,\"fire\":false}'' ''port'' 0) = 1"
    by code_simp+
  from trigger_override_never_released [OF reach, of 1
      "''{\"cmd\":\"joystick\",\"port\":1,\"fire\":false}''"] off port
  have "AI_trig_override
     (process_command sample_collab ''{\"cmd\":\"joystick\",\"port\":1,\"fire\":false}'' fire_session) 1
     = - 1"
    by simp
  with reach evaluated show ?thesis by simp
qed


section \<open>The two countdowns\<close>












section \<open>Joystick overrides\<close>

lemma fifteen_mask: "(15 :: int) = mask 4" "(15 :: u8) = mask 4"
  by (simp_all add: mask_eq_exp_minus_1)

lemma stick_bits:
  assumes "0 \<le> v" and "v \<le> 15" and "bit (v :: int) n"
  shows "n < 4"
proof -
  from assms(1,2) have "take_bit 4 v = v" by (simp add: take_bit_int_eq_self)
  with assms(3) have "bit (take_bit 4 v) n" by simp
  then show ?thesis by (simp add: bit_take_bit_iff)
qed

lemma override_lines_word:
  "override_lines shift v b =
     (b AND NOT (push_bit shift 0x0F)) OR push_bit shift (word_of_int v)"
  unfolding override_lines_def Let_def
  by (rule bit_word_eqI) (auto simp: bit_simps fifteen_mask)

lemma nibble_override_same:
  assumes "0 \<le> v" and "v \<le> 15" and "k < 2"
  shows "nibble k (override_lines (4 * k) v b) = word_of_int v"
proof -
  have small: "\<And>n. bit v n \<Longrightarrow> n < 4" using stick_bits [OF assms(1,2)] .
  from assms(3) have "k = 0 \<or> k = 1" by arith
  then show ?thesis
    unfolding nibble_def override_lines_word
    by (elim disjE; intro bit_word_eqI) (auto simp: bit_simps fifteen_mask dest: small)
qed

lemma nibble_override_other:
  assumes "0 \<le> v" and "v \<le> 15" and "k < 2" and "j < 2" and "j \<noteq> k"
  shows "nibble j (override_lines (4 * k) v b) = nibble j b"
proof -
  have small: "\<And>n. bit v n \<Longrightarrow> n < 4" using stick_bits [OF assms(1,2)] .
  from assms(3,4,5) have "k = 0 \<and> j = 1 \<or> k = 1 \<and> j = 0" by arith
  then show ?thesis
    unfolding nibble_def override_lines_word
    by (elim disjE conjE; intro bit_word_eqI) (auto simp: bit_simps fifteen_mask dest: small)
qed

lemma nibble_port_lines:
  assumes "v \<le> 15" and "k < 2" and "j < 2"
  shows "nibble j (port_lines v k b) =
         (if j = k \<and> v \<ge> 0 then word_of_int v else nibble j b)"
  using assms nibble_override_same [of v k b] nibble_override_other [of v k j b]
  by (auto simp: port_lines_def)

lemma apply_port_pia:
  "i < 4 \<Longrightarrow>
   PIA_PORT_input (machine (apply_port i s)) =
     (PIA_PORT_input (machine s))
       (i div 2 := port_lines (AI_joy_override s i) (i mod 2)
                     (PIA_PORT_input (machine s) (i div 2)))"
proof -
  assume "i < 4"
  then have "i = 0 \<or> i = 1 \<or> i = 2 \<or> i = 3" by arith
  then show ?thesis
    by (elim disjE) (simp_all add: apply_port_def port_lines_def Let_def)
qed

lemma AI_ApplyInput_pia:
  assumes "AI_enabled s \<noteq> 0"
  shows "PIA_PORT_input (machine (AI_ApplyInput s)) 0 =
           port_lines (AI_joy_override s 1) 1
             (port_lines (AI_joy_override s 0) 0 (PIA_PORT_input (machine s) 0))"
    and "PIA_PORT_input (machine (AI_ApplyInput s)) (Suc 0) =
           port_lines (AI_joy_override s 3) 1
             (port_lines (AI_joy_override s 2) 0 (PIA_PORT_input (machine s) (Suc 0)))"
  using assms by (simp_all add: AI_ApplyInput_def apply_port_pia)

lemma AI_ApplyInput_nibble:
  assumes "AI_enabled s \<noteq> 0" and "p < 4"
    and "list_all (\<lambda>q. AI_joy_override s q \<le> 15) [0, 1, 2, 3]"
  shows "nibble (p mod 2) (PIA_PORT_input (machine (AI_ApplyInput s)) (p div 2)) =
         (if AI_joy_override s p \<ge> 0 then word_of_int (AI_joy_override s p)
          else nibble (p mod 2) (PIA_PORT_input (machine s) (p div 2)))"
proof -
  from assms(2) have "p = 0 \<or> p = 1 \<or> p = 2 \<or> p = 3" by arith
  then show ?thesis
    using assms(3)
    by (elim disjE) (simp_all add: AI_ApplyInput_pia [OF assms(1)] nibble_port_lines)
qed

lemma read_command_overrides: "overrides (snd (read_command n t)) = overrides t"
proof -
  obtain r t1 where read: "read_command n t = (r, t1)" by (cases "read_command n t")
  from read_command_frame [OF read] have same: "beyond_sockets t1 = beyond_sockets t"
    by simp
  have "AI_joy_override t1 = AI_joy_override t" "AI_trig_override t1 = AI_trig_override t"
    by (rule beyond_sockets_fields [OF same])+
  with read show ?thesis by (simp add: overrides_def)
qed

lemma cmd_joystick_tables:
  "0 \<le> json_get_int cmd ''port'' 0 \<Longrightarrow> json_get_int cmd ''port'' 0 < 4 \<Longrightarrow>
   AI_joy_override (cmd_joystick X cmd s) (nat (json_get_int cmd ''port'' 0)) =
     (if stick_of X (string_field cmd ''direction'' 16) = INPUT_STICK_CENTRE then - 1
      else stick_of X (string_field cmd ''direction'' 16)) \<and>
   AI_trig_override (cmd_joystick X cmd s) (nat (json_get_int cmd ''port'' 0)) =
     (if json_get_bool cmd ''fire'' 0 \<noteq> 0 then 0 else - 1)"
  by (simp add: cmd_joystick_def AI_SendResponse_def Let_def)

lemma cmd_joystick_other_port:
  "json_get_int cmd ''port'' 0 \<noteq> int p \<Longrightarrow>
   AI_joy_override (cmd_joystick X cmd t) p = AI_joy_override t p \<and>
   AI_trig_override (cmd_joystick X cmd t) p = AI_trig_override t p"
  by (auto simp: cmd_joystick_def AI_SendResponse_def Let_def)

text \<open>
  C3, as amended. The port of a \<^verbatim>\<open>joystick\<close> command is the \<^verbatim>\<open>int\<close> that
  \<^verbatim>\<open>json_get_int\<close> reads from its \<^verbatim>\<open>port\<close> field, so the result of \<^verbatim>\<open>atoi\<close>, cut to
  32 bits. A \<^verbatim>\<open>joystick\<close> command for a port from 0 to 3 stores the stick
  value of its direction (no override for the centre) and 0 for \<^verbatim>\<open>fire\<close> (no override
  without it) in the port's two table entries. At every frame \<^verbatim>\<open>AI_ApplyInput\<close> then
  replaces all four bits of the port's nibble by the stored stick value and sets the
  port's trigger flag to the stored value, while a port without override keeps the nibble
  and the flag that the hardware poll left; so the neighbour in the same byte is not
  disturbed. The two entries stay as they are under everything but a \<^verbatim>\<open>joystick\<close>
  command for that port: reading requests, also when the read finds the peer gone and
  closes the session, accepting a connection, the frame hook, and every other command.
\<close>

theorem joystick_override_replaces_lines:
  "(string_field cmd ''cmd'' 32 = ''joystick'' \<and>
      0 \<le> json_get_int cmd ''port'' 0 \<and> json_get_int cmd ''port'' 0 < 4 \<longrightarrow>
      AI_joy_override (process_command X cmd s) (nat (json_get_int cmd ''port'' 0)) =
        (if stick_of X (string_field cmd ''direction'' 16) = INPUT_STICK_CENTRE then - 1
         else stick_of X (string_field cmd ''direction'' 16)) \<and>
      AI_trig_override (process_command X cmd s) (nat (json_get_int cmd ''port'' 0)) =
        (if json_get_bool cmd ''fire'' 0 \<noteq> 0 then 0 else - 1)) \<and>
   (AI_enabled t \<noteq> 0 \<and> p < 4 \<and> list_all (\<lambda>q. AI_joy_override t q \<le> 15) [0, 1, 2, 3] \<longrightarrow>
      nibble (p mod 2) (PIA_PORT_input (machine (AI_ApplyInput t)) (p div 2)) =
        (if AI_joy_override t p \<ge> 0 then word_of_int (AI_joy_override t p)
         else nibble (p mod 2) (PIA_PORT_input (machine t) (p div 2))) \<and>
      GTIA_TRIG (machine (AI_ApplyInput t)) p =
        (if AI_trig_override t p \<ge> 0 then word_of_int (AI_trig_override t p)
         else GTIA_TRIG (machine t) p)) \<and>
   (overrides (snd (read_command n t)) = overrides t \<and>
    overrides (check_connections t) = overrides t \<and>
    overrides (usleep t) = overrides t \<and>
    overrides (AI_Frame_begin t) = overrides t \<and>
    overrides (AI_ApplyInput t) = overrides t) \<and>
   (string_field cmd ''cmd'' 32 \<noteq> ''joystick'' \<longrightarrow>
      overrides (process_command X cmd t) = overrides t) \<and>
   (string_field cmd ''cmd'' 32 = ''joystick'' \<and> json_get_int cmd ''port'' 0 \<noteq> int p \<longrightarrow>
      AI_joy_override (process_command X cmd t) p = AI_joy_override t p \<and>
      AI_trig_override (process_command X cmd t) p = AI_trig_override t p)"
proof -
  have store: "string_field cmd ''cmd'' 32 = ''joystick'' \<and>
      0 \<le> json_get_int cmd ''port'' 0 \<and> json_get_int cmd ''port'' 0 < 4 \<longrightarrow>
      AI_joy_override (process_command X cmd s) (nat (json_get_int cmd ''port'' 0)) =
        (if stick_of X (string_field cmd ''direction'' 16) = INPUT_STICK_CENTRE then - 1
         else stick_of X (string_field cmd ''direction'' 16)) \<and>
      AI_trig_override (process_command X cmd s) (nat (json_get_int cmd ''port'' 0)) =
        (if json_get_bool cmd ''fire'' 0 \<noteq> 0 then 0 else - 1)"
    using cmd_joystick_tables [of cmd X s] by (simp add: process_joystick)
  have lines: "AI_enabled t \<noteq> 0 \<and> p < 4 \<and>
      list_all (\<lambda>q. AI_joy_override t q \<le> 15) [0, 1, 2, 3] \<longrightarrow>
      nibble (p mod 2) (PIA_PORT_input (machine (AI_ApplyInput t)) (p div 2)) =
        (if AI_joy_override t p \<ge> 0 then word_of_int (AI_joy_override t p)
         else nibble (p mod 2) (PIA_PORT_input (machine t) (p div 2))) \<and>
      GTIA_TRIG (machine (AI_ApplyInput t)) p =
        (if AI_trig_override t p \<ge> 0 then word_of_int (AI_trig_override t p)
         else GTIA_TRIG (machine t) p)"
    using AI_ApplyInput_nibble [of t p] by (simp add: AI_ApplyInput_trig)
  have keep: "overrides (snd (read_command n t)) = overrides t \<and>
      overrides (check_connections t) = overrides t \<and>
      overrides (usleep t) = overrides t \<and>
      overrides (AI_Frame_begin t) = overrides t \<and>
      overrides (AI_ApplyInput t) = overrides t"
    by (simp add: read_command_overrides) (simp add: overrides_def)
  have others: "string_field cmd ''cmd'' 32 \<noteq> ''joystick'' \<longrightarrow>
      overrides (process_command X cmd t) = overrides t"
    by (simp add: process_command_overrides)
  have ports: "string_field cmd ''cmd'' 32 = ''joystick'' \<and>
      json_get_int cmd ''port'' 0 \<noteq> int p \<longrightarrow>
      AI_joy_override (process_command X cmd t) p = AI_joy_override t p \<and>
      AI_trig_override (process_command X cmd t) p = AI_trig_override t p"
    using cmd_joystick_other_port [of cmd p X t] by (simp add: process_joystick)
  show ?thesis
    by (rule conjI [OF store conjI [OF lines conjI [OF keep conjI [OF others ports]]]])
qed

theorem joystick_override_replaces_lines_witness:
  "AI_joy_override fire_session 1 = 11 \<and> AI_trig_override fire_session 1 = 0 \<and>
   nibble 1 (PIA_PORT_input (machine (AI_ApplyInput fire_session)) 0) = 11 \<and>
   nibble 0 (PIA_PORT_input (machine (AI_ApplyInput fire_session)) 0) =
     nibble 0 (PIA_PORT_input (machine fire_session) 0) \<and>
   GTIA_TRIG (machine (AI_ApplyInput fire_session)) 1 = 0 \<and>
   overrides (snd (read_command AI_BUFFER_SIZE fire_session)) = overrides fire_session \<and>
   overrides (check_connections fire_session) = overrides fire_session \<and>
   overrides (process_command sample_collab ''{\"cmd\":\"ping\"}'' fire_session)
     = overrides fire_session \<and>
   AI_joy_override
     (process_command sample_collab ''{\"cmd\":\"joystick\",\"port\":0,\"direction\":\"up\"}''
        fire_session) 1 = 11 \<and>
   AI_joy_override
     (process_command sample_collab ''{\"cmd\":\"joystick\",\"port\":1,\"direction\":\"center\"}''
        fire_session) 1 = - 1 \<and>
   AI_trig_override
     (process_command sample_collab ''{\"cmd\":\"joystick\",\"port\":1,\"direction\":\"center\"}''
        fire_session) 1 = - 1"
proof -
  let ?left = "''{\"cmd\":\"joystick\",\"port\":1,\"direction\":\"left\",\"fire\":true}''"
  let ?up = "''{\"cmd\":\"joystick\",\"port\":0,\"direction\":\"up\"}''"
  let ?centre = "''{\"cmd\":\"joystick\",\"port\":1,\"direction\":\"center\"}''"
  let ?s = "session_state (request ?left)"
  have read: "read_command AI_BUFFER_SIZE ?s = (Some ?left, session_state [])"
    by (simp add: read_command_def read_header.simps read_body.simps session_state_def
        boot_state_def request_def envelope_def fmt_d_def dec_nat.simps atoi_eval isspace_def
        isdigit_def AI_BUFFER_SIZE_def fun_eq_iff)
  then have fire: "fire_session = process_command sample_collab ?left (session_state [])"
    by (simp add: fire_session_def AI_Frame_round_def c_str_def check_connections_idle
        session_state_def boot_state_def)
  have left: "string_field ?left ''cmd'' 32 = ''joystick'' \<and>
      0 \<le> json_get_int ?left ''port'' 0 \<and> json_get_int ?left ''port'' 0 < 4"
    and left_values: "nat (json_get_int ?left ''port'' 0) = 1"
      "stick_of sample_collab (string_field ?left ''direction'' 16) = 11"
      "json_get_bool ?left ''fire'' 0 = 1"
    by code_simp+
  from joystick_override_replaces_lines
      [where cmd = ?left and X = sample_collab and s = "session_state []",
        THEN conjunct1, THEN mp, OF left]
  have tables: "AI_joy_override fire_session 1 = 11" "AI_trig_override fire_session 1 = 0"
    by (simp_all add: fire left_values INPUT_STICK_CENTRE_def)
  have others: "AI_joy_override fire_session 0 = - 1" "AI_joy_override fire_session 2 = - 1"
    "AI_joy_override fire_session 3 = - 1" "AI_enabled fire_session = 1"
    by code_simp+
  with tables have ready1: "AI_enabled fire_session \<noteq> 0 \<and> (1 :: nat) < 4 \<and>
      list_all (\<lambda>q. AI_joy_override fire_session q \<le> 15) [0, 1, 2, 3]"
    and ready0: "AI_enabled fire_session \<noteq> 0 \<and> (0 :: nat) < 4 \<and>
      list_all (\<lambda>q. AI_joy_override fire_session q \<le> 15) [0, 1, 2, 3]"
    by simp_all
  from joystick_override_replaces_lines
      [where t = fire_session and p = 1, THEN conjunct2, THEN conjunct1, THEN mp, OF ready1]
    tables
  have port1: "nibble 1 (PIA_PORT_input (machine (AI_ApplyInput fire_session)) 0) = 11"
    "GTIA_TRIG (machine (AI_ApplyInput fire_session)) 1 = 0"
    by simp_all
  from joystick_override_replaces_lines
      [where t = fire_session and p = 0, THEN conjunct2, THEN conjunct1, THEN mp, OF ready0]
    others
  have port0: "nibble 0 (PIA_PORT_input (machine (AI_ApplyInput fire_session)) 0) =
      nibble 0 (PIA_PORT_input (machine fire_session) 0)"
    by simp
  from joystick_override_replaces_lines
      [where t = fire_session and n = AI_BUFFER_SIZE,
        THEN conjunct2, THEN conjunct2, THEN conjunct1]
  have keep: "overrides (snd (read_command AI_BUFFER_SIZE fire_session)) = overrides fire_session"
    "overrides (check_connections fire_session) = overrides fire_session"
    by simp_all
  have ping: "string_field ''{\"cmd\":\"ping\"}'' ''cmd'' 32 \<noteq> ''joystick''"
    by code_simp
  from joystick_override_replaces_lines
      [where t = fire_session and cmd = "''{\"cmd\":\"ping\"}''" and X = sample_collab,
        THEN conjunct2, THEN conjunct2, THEN conjunct2, THEN conjunct1, THEN mp, OF ping]
  have ping_keeps: "overrides (process_command sample_collab ''{\"cmd\":\"ping\"}'' fire_session)
      = overrides fire_session" .
  have up: "string_field ?up ''cmd'' 32 = ''joystick'' \<and> json_get_int ?up ''port'' 0 \<noteq> int 1"
    by code_simp
  from joystick_override_replaces_lines
      [where t = fire_session and cmd = ?up and X = sample_collab and p = 1,
        THEN conjunct2, THEN conjunct2, THEN conjunct2, THEN conjunct2, THEN mp, OF up]
    tables
  have up_keeps: "AI_joy_override (process_command sample_collab ?up fire_session) 1 = 11"
    by simp
  have centre: "string_field ?centre ''cmd'' 32 = ''joystick'' \<and>
      0 \<le> json_get_int ?centre ''port'' 0 \<and> json_get_int ?centre ''port'' 0 < 4"
    and centre_values: "nat (json_get_int ?centre ''port'' 0) = 1"
      "stick_of sample_collab (string_field ?centre ''direction'' 16) = 15"
      "json_get_bool ?centre ''fire'' 0 = 0"
    by code_simp+
  from joystick_override_replaces_lines
      [where cmd = ?centre and X = sample_collab and s = fire_session,
        THEN conjunct1, THEN mp, OF centre]
  have cleared: "AI_joy_override (process_command sample_collab ?centre fire_session) 1 = - 1"
    "AI_trig_override (process_command sample_collab ?centre fire_session) 1 = - 1"
    by (simp_all add: centre_values INPUT_STICK_CENTRE_def)
  from tables port1 port0 keep ping_keeps up_keeps cleared show ?thesis
    by simp
qed

text \<open>
  C3 as stated fails in its last part: a disconnect does not reset the override. A
  client connects, sends \<^verbatim>\<open>joystick\<close> for port 0 with \<^verbatim>\<open>up\<close> and \<^verbatim>\<open>fire\<close>, and closes
  the connection. The frame hook answers, finds the peer gone and closes the session;
  the table still holds 14 and 0, and \<^verbatim>\<open>AI_ApplyInput\<close> goes on turning the polled
  \<^verbatim>\<open>0xFF\<close> and 1 into \<^verbatim>\<open>0xFE\<close> and 0.
\<close>

theorem disconnect_keeps_override_counterexample:
  "map_option
     (\<lambda>s. (ai_client_fd s, AI_joy_override s 0, AI_trig_override s 0,
           PIA_PORT_input (machine s) 0, GTIA_TRIG (machine s) 0,
           PIA_PORT_input (machine (AI_ApplyInput s)) 0,
           GTIA_TRIG (machine (AI_ApplyInput s)) 0))
     (AI_Frame sample_collab 3
        (deliver (Shut 4 Eof)
           (deliver (Recv 4
                (request ''{\"cmd\":\"joystick\",\"port\":0,\"direction\":\"up\",\"fire\":true}''))
              (deliver (Connect 4) boot_state))))
   = Some (- 1, 14, 0, 0xFF, 1, 0xFE, 0)"
  by code_simp


section \<open>Protocol errors\<close>









text \<open>
  A prefix beyond the range of \<^verbatim>\<open>int\<close> is cut to 32 bits before the test, and a prefix
  with text after its digits is read up to that text: both \<^verbatim>\<open>4294967310\<close> and \<^verbatim>\<open>14abc\<close>
  announce the 14 bytes of a \<^verbatim>\<open>ping\<close>, and both requests are answered.
\<close>

lemma length_prefix_read_by_atoi:
  "map_option sent
     (AI_Frame sample_collab 4
        (deliver (Shut 4 Eof)
           (deliver (Recv 4
                (''4294967310\<newline>{\"cmd\":\"ping\"}14abc\<newline>{\"cmd\":\"ping\"}''))
              (deliver (Connect 4) boot_state))))
   = Some [(4, ''28\<newline>{\"status\":\"ok\",\"msg\":\"pong\"}''),
           (4, ''28\<newline>{\"status\":\"ok\",\"msg\":\"pong\"}'')]"
  by code_simp

section \<open>Run and step\<close>

text \<open>
  C1 fails on the count that is reported. A client sends \<^verbatim>\<open>run\<close> with \<^verbatim>\<open>frames\<close> 2. The
  first call of the frame hook accepts the client and dispatches the request without
  answering; the second call counts down to 1; the third call counts down to 0, pauses
  and sends the one response, after the two frames that ran in between. That response
  says \<^verbatim>\<open>"frames_run":1\<close>: the text is a constant of \<^verbatim>\<open>AI_Frame\<close>.
\<close>

theorem run_reports_one_frame:
  "map_option (\<lambda>s. (ai_frames_to_run s, ai_paused s, sent s))
     (AI_Frames sample_collab 2 1 run_client) = Some (2, 0, []) \<and>
   map_option (\<lambda>s. (ai_frames_to_run s, ai_paused s, sent s))
     (AI_Frames sample_collab 2 2 run_client) = Some (1, 0, []) \<and>
   map_option (\<lambda>s. (ai_frames_to_run s, ai_paused s, sent s))
     (AI_Frames sample_collab 2 3 run_client) =
     Some (0, 1, [(4, ''30\<newline>{\"status\":\"ok\",\"frames_run\":1}'')])"
  by code_simp

text \<open>
  The countdown for any number of frames: while more than one frame is left, a call of
  the frame hook only decrements the counter; the call that finds one frame left pauses
  and sends the one response, whose text does not depend on the number requested.
\<close>

lemma counting_hook:
  assumes "AI_enabled t \<noteq> 0" and "pending t = []" and "ai_paused t = 0"
    and "ai_frames_to_run t > 1"
  shows "AI_Frame X fuel t = Some (t\<lparr>ai_frames_to_run := ai_frames_to_run t - 1\<rparr>)"
proof -
  from assms(2,4) have "AI_Frame_begin t = t\<lparr>ai_frames_to_run := ai_frames_to_run t - 1\<rparr>"
    by (simp add: AI_Frame_begin_def check_connections_idle Let_def)
  moreover from assms(3)
  have "AI_Frame_loop X fuel (t\<lparr>ai_frames_to_run := ai_frames_to_run t - 1\<rparr>) =
      Some (t\<lparr>ai_frames_to_run := ai_frames_to_run t - 1\<rparr>)"
    by (cases fuel) simp_all
  ultimately show ?thesis using assms(1) by (simp add: AI_Frame_def)
qed

lemma counting_hooks:
  assumes "AI_enabled t \<noteq> 0" and "pending t = []" and "ai_paused t = 0"
    and "int k < ai_frames_to_run t"
  shows "AI_Frames X fuel k t = Some (t\<lparr>ai_frames_to_run := ai_frames_to_run t - int k\<rparr>)"
  using assms
proof (induction k arbitrary: t)
  case 0
  then show ?case by simp
next
  case (Suc k)
  let ?t = "t\<lparr>ai_frames_to_run := ai_frames_to_run t - 1\<rparr>"
  from Suc.prems have "AI_Frame X fuel t = Some ?t"
    by (intro counting_hook) simp_all
  moreover from Suc.prems
  have "AI_Frames X fuel k ?t = Some (?t\<lparr>ai_frames_to_run := ai_frames_to_run ?t - int k\<rparr>)"
    by (intro Suc.IH) simp_all
  ultimately show ?case by (simp add: algebra_simps)
qed

lemma last_hook:
  assumes "pending t = []" and "ai_frames_to_run t = 1"
  shows "AI_Frame_begin t =
         AI_SendResponse ''{\"status\":\"ok\",\"frames_run\":1}''
           (t\<lparr>ai_frames_to_run := 0, ai_paused := 1\<rparr>)"
  using assms by (simp add: AI_Frame_begin_def check_connections_idle Let_def)

lemma run_countdown:
  assumes "string_field cmd ''cmd'' 32 = ''run''" and "json_get_int cmd ''frames'' 1 = int (Suc k)"
    and "AI_enabled s \<noteq> 0" and "pending s = []" and "ai_client_fd s \<ge> 0"
  shows "\<exists>t. AI_Frames X fuel k (process_command X cmd s) = Some t \<and>
             sent t = sent s \<and> ai_paused t = 0 \<and>
             ai_paused (AI_Frame_begin t) = 1 \<and>
             sent (AI_Frame_begin t) =
               sent s @ [(ai_client_fd s, envelope ''{\"status\":\"ok\",\"frames_run\":1}'')]"
proof -
  let ?begun = "s\<lparr>ai_frames_to_run := int (Suc k), ai_paused := 0\<rparr>"
  let ?final = "?begun\<lparr>ai_frames_to_run := ai_frames_to_run ?begun - int k\<rparr>"
  have begun: "process_command X cmd s = ?begun"
    unfolding process_run [OF assms(1)] assms(2) ..
  from assms(3,4) have "AI_Frames X fuel k ?begun = Some ?final"
    by (intro counting_hooks) simp_all
  moreover from assms(4) have "AI_Frame_begin ?final =
      AI_SendResponse ''{\"status\":\"ok\",\"frames_run\":1}''
        (?final\<lparr>ai_frames_to_run := 0, ai_paused := 1\<rparr>)"
    by (intro last_hook) simp_all
  ultimately show ?thesis
    using assms(5) by (simp add: begun AI_SendResponse_def)
qed

text \<open>A frame hook that finds nothing to accept, nothing to count and no pause returns at once.\<close>

lemma idle_hook:
  assumes "pending t = []" and "ai_frames_to_run t \<le> 0" and "ai_paused t = 0"
  shows "AI_Frame X fuel t = Some t"
proof -
  from assms(1,2) have "AI_Frame_begin t = t"
    by (simp add: AI_Frame_begin_def check_connections_idle)
  moreover from assms(3) have "AI_Frame_loop X fuel t = Some t"
    by (cases fuel) simp_all
  ultimately show ?thesis by (simp add: AI_Frame_def)
qed

lemma idle_hooks:
  assumes "pending t = []" and "ai_frames_to_run t \<le> 0" and "ai_paused t = 0"
  shows "AI_Frames X fuel k t = Some t"
  by (induction k) (simp_all add: idle_hook [OF assms])

text \<open>
  C2 fails: the step countdown does not exist. A client sends \<^verbatim>\<open>step\<close> with
  \<^verbatim>\<open>instructions\<close> 1. The frame hook that dispatches it leaves the scheduler not paused
  with the counter at 1, and however many calls of the hook follow, the state stays
  exactly that: the counter is never decremented, the scheduler never pauses again and
  no response is ever sent.
\<close>

theorem step_never_completes:
  "AI_Frames sample_collab 1 (Suc k)
     (session_state (request ''{\"cmd\":\"step\",\"instructions\":1}'')) = Some step_session \<and>
   ai_steps_to_run step_session = 1 \<and> ai_paused step_session = 0 \<and> sent step_session = []"
proof -
  let ?s = "session_state (request ''{\"cmd\":\"step\",\"instructions\":1}'')"
  have after: "pending step_session = []" "ai_frames_to_run step_session \<le> 0"
    "ai_paused step_session = 0" "ai_steps_to_run step_session = 1" "sent step_session = []"
    by code_simp+
  have "AI_Frame_begin ?s = ?s"
    by (simp add: AI_Frame_begin_def check_connections_idle session_state_def boot_state_def)
  moreover have "AI_Frame_loop sample_collab 1 ?s = Some step_session"
    using after(3) by (simp add: step_session_def session_state_def boot_state_def)
  ultimately have first: "AI_Frame sample_collab 1 ?s = Some step_session"
    by (simp add: AI_Frame_def session_state_def boot_state_def)
  have "AI_Frames sample_collab 1 (Suc k) ?s = AI_Frames sample_collab 1 k step_session"
    by (simp only: AI_Frames.simps first Option.bind.simps)
  also have "\<dots> = Some step_session"
    by (rule idle_hooks [OF after(1,2,3)])
  finally show ?thesis using after by simp
qed


end
